theory Spec2Isabelle
  imports Complex_Main "HOL-Library.Multiset" "HOL-Library.AList"
begin

section \<open>Core types (core/types.py)\<close>

text \<open>
  The enums of \<^verbatim>\<open>core/types.py\<close> are datatypes and its models are records. Python
  floats are idealised as real numbers and Python ints are unbounded integers. A record
  field carries a short prefix naming its class (\<open>t_\<close> Trade, \<open>b_\<close> Bar,
  \<open>a_\<close> BarAccumulator, \<open>bb_\<close> BarBuilder, \<open>i_\<close> VenuePriceInput,
  \<open>c_\<close> VenueContribution, \<open>r_\<close> CompositeResult, \<open>cb_\<close> CompositeBar,
  \<open>ev_\<close> ExcludedVenue), since several classes share field names. Where the
  code stores the name of a venue (\<^verbatim>\<open>venue.value\<close>), the model stores the venue.
\<close>

datatype VenueId = BINANCE | COINBASE | KRAKEN | OKX | BYBIT

datatype MarketType = SPOT | PERP

datatype AssetId = BTC | ETH

datatype ExcludeReason = DISCONNECTED | STALE | OUTLIER | NO_DATA | BACKFILL_UNAVAILABLE

datatype TakerSide = BUY | SELL

datatype DegradedReason =
  NONE | SINGLE_SOURCE | BELOW_PREFERRED_QUORUM | VENUE_DISCONNECTED | VENUE_STALE | VENUE_OUTLIER

text \<open>Exceptions are values; \<open>Exception msg\<close> stands for any exception raised by an
  external collaborator (HTTP client, database), with \<open>str(e) = msg\<close>.\<close>

datatype error =
  TypeError | ValidationError | StopIteration | ZeroDivisionError | ValueError string
  | Exception string


text \<open>The value of a Python float expression: a finite number, an infinity or
  not-a-number. A finite float is a real number: rounding to the nearest double and
  underflow are not modelled. Overflow is: an operation on two finite floats whose exact
  result has a magnitude of \<open>2^1024 - 2^970\<close> or more returns an infinity, as IEEE 754
  round-to-nearest prescribes. A real number outside the range of doubles stands for no
  float; the operations return the exact result on such an operand.\<close>

datatype pyfloat = Finite real | PosInf | NegInf | NaN

definition DBL_OVERFLOW :: real where
  "DBL_OVERFLOW = 2 ^ 1024 - 2 ^ 970"

definition in_range :: "real \<Rightarrow> bool" where
  "in_range x = (\<bar>x\<bar> < DBL_OVERFLOW)"

definition float_result :: "real \<Rightarrow> real \<Rightarrow> real \<Rightarrow> pyfloat" where
  "float_result a b x =
     (if in_range a \<and> in_range b \<and> \<not> in_range x
      then (if 0 < x then PosInf else NegInf)
      else Finite x)"

text \<open>The float operations \<^verbatim>\<open>-\<close>, \<^verbatim>\<open>/\<close>, \<^verbatim>\<open>abs\<close>, \<^verbatim>\<open>*\<close> and \<^verbatim>\<open>>\<close>, with a finite
  right operand (as at every place where the modelled code applies them to a value that
  may be infinite). Python's \<^verbatim>\<open>/\<close> raises \<^verbatim>\<open>ZeroDivisionError\<close> on a zero divisor.\<close>

fun float_sub :: "pyfloat \<Rightarrow> real \<Rightarrow> pyfloat" where
  "float_sub (Finite a) b = float_result a b (a - b)"
| "float_sub PosInf b = PosInf"
| "float_sub NegInf b = NegInf"
| "float_sub NaN b = NaN"

fun float_truediv :: "pyfloat \<Rightarrow> real \<Rightarrow> error + pyfloat" where
  "float_truediv x b =
     (if b = 0 then Inl ZeroDivisionError
      else Inr (case x of
                  Finite a \<Rightarrow> float_result a b (a / b)
                | PosInf \<Rightarrow> if 0 < b then PosInf else NegInf
                | NegInf \<Rightarrow> if 0 < b then NegInf else PosInf
                | NaN \<Rightarrow> NaN))"

fun float_abs :: "pyfloat \<Rightarrow> pyfloat" where
  "float_abs (Finite a) = Finite \<bar>a\<bar>"
| "float_abs PosInf = PosInf"
| "float_abs NegInf = PosInf"
| "float_abs NaN = NaN"

fun float_mul :: "pyfloat \<Rightarrow> real \<Rightarrow> pyfloat" where
  "float_mul (Finite a) b = float_result a b (a * b)"
| "float_mul PosInf b = (if b = 0 then NaN else if 0 < b then PosInf else NegInf)"
| "float_mul NegInf b = (if b = 0 then NaN else if 0 < b then NegInf else PosInf)"
| "float_mul NaN b = NaN"

fun float_gt :: "pyfloat \<Rightarrow> real \<Rightarrow> bool" where
  "float_gt (Finite a) b = (a > b)"
| "float_gt PosInf b = True"
| "float_gt NegInf b = False"
| "float_gt NaN b = False"

record Trade =
  t_timestamp :: int
  t_local_timestamp :: int
  t_price :: real
  t_quantity :: real
  t_is_buyer_maker :: bool
  t_venue :: VenueId
  t_asset :: AssetId
  t_market_type :: MarketType

definition taker_side :: "Trade \<Rightarrow> TakerSide" where
  "taker_side self = (if t_is_buyer_maker self then SELL else BUY)"

record Bar =
  b_time :: int
  b_open :: real
  b_high :: real
  b_low :: real
  b_close :: real
  b_volume :: real
  b_trade_count :: int
  b_buy_volume :: real
  b_sell_volume :: real
  b_buy_count :: int
  b_sell_count :: int
  b_venue :: VenueId
  b_asset :: AssetId
  b_market_type :: MarketType
  b_is_partial :: bool

record ExcludedVenue =
  ev_venue :: VenueId
  ev_reason :: ExcludeReason

record VenueContribution =
  c_venue :: VenueId
  c_price :: "real option"
  c_included :: bool
  c_exclude_reason :: "ExcludeReason option"
  c_deviation_bps :: "pyfloat option"

record CompositeBar =
  cb_time :: int
  cb_open :: "real option"
  cb_high :: "real option"
  cb_low :: "real option"
  cb_close :: "real option"
  cb_volume :: real
  cb_buy_volume :: real
  cb_sell_volume :: real
  cb_buy_count :: int
  cb_sell_count :: int
  cb_degraded :: bool
  cb_is_gap :: bool
  cb_is_backfilled :: bool
  cb_included_venues :: "VenueId list"
  cb_excluded_venues :: "ExcludedVenue list"
  cb_asset :: "AssetId option"
  cb_market_type :: "MarketType option"

section \<open>Constants (core/constants.py)\<close>

definition OUTLIER_THRESHOLD_BPS :: int where
  "OUTLIER_THRESHOLD_BPS = 100"

record QuorumPolicy =
  min_quorum :: int
  preferred_quorum :: int
  allow_single_source :: bool

datatype policy_name = poc | production

fun QUORUM_POLICIES :: "policy_name \<Rightarrow> QuorumPolicy" where
  "QUORUM_POLICIES poc =
     \<lparr>min_quorum = 1, preferred_quorum = 2, allow_single_source = True\<rparr>"
| "QUORUM_POLICIES production =
     \<lparr>min_quorum = 2, preferred_quorum = 3, allow_single_source = False\<rparr>"

definition CURRENT_QUORUM_POLICY :: policy_name where
  "CURRENT_QUORUM_POLICY = production"

definition get_quorum_config :: QuorumPolicy where
  "get_quorum_config = QUORUM_POLICIES CURRENT_QUORUM_POLICY"

fun STALE_THRESHOLDS_MS :: "VenueId \<Rightarrow> (MarketType \<Rightarrow> int option) option" where
  "STALE_THRESHOLDS_MS BINANCE = Some [SPOT \<mapsto> 10000, PERP \<mapsto> 10000]"
| "STALE_THRESHOLDS_MS COINBASE = Some [SPOT \<mapsto> 30000, PERP \<mapsto> 30000]"
| "STALE_THRESHOLDS_MS KRAKEN = Some [SPOT \<mapsto> 30000, PERP \<mapsto> 30000]"
| "STALE_THRESHOLDS_MS OKX = Some [SPOT \<mapsto> 15000, PERP \<mapsto> 15000]"
| "STALE_THRESHOLDS_MS BYBIT = Some [SPOT \<mapsto> 15000, PERP \<mapsto> 15000]"

definition DEFAULT_STALE_THRESHOLD_MS :: int where
  "DEFAULT_STALE_THRESHOLD_MS = 30000"

definition get_stale_threshold :: "VenueId \<Rightarrow> MarketType \<Rightarrow> int" where
  "get_stale_threshold venue market_type =
     (let venue_thresholds =
            (case STALE_THRESHOLDS_MS venue of None \<Rightarrow> Map.empty | Some d \<Rightarrow> d)
      in case venue_thresholds market_type of
           None \<Rightarrow> DEFAULT_STALE_THRESHOLD_MS
         | Some t \<Rightarrow> t)"

definition BAR_INTERVAL_SECONDS :: int where
  "BAR_INTERVAL_SECONDS = 60"

definition MAX_TRADE_BUFFER_SIZE :: int where
  "MAX_TRADE_BUFFER_SIZE = 5000"

definition MAX_BARS_PER_VENUE :: nat where
  "MAX_BARS_PER_VENUE = 1000"

definition ENABLED_SPOT_VENUES :: "VenueId list" where
  "ENABLED_SPOT_VENUES = [BINANCE, COINBASE, OKX, KRAKEN]"

definition ENABLED_PERP_VENUES :: "VenueId list" where
  "ENABLED_PERP_VENUES = [BINANCE, OKX, BYBIT]"

definition get_enabled_venues :: "MarketType \<Rightarrow> VenueId list" where
  "get_enabled_venues market_type =
     (if market_type = SPOT then ENABLED_SPOT_VENUES else ENABLED_PERP_VENUES)"

definition REALTIME_VENUES :: "VenueId set" where
  "REALTIME_VENUES = {BINANCE, COINBASE, KRAKEN, OKX, BYBIT}"

definition BACKFILL_VENUES :: "VenueId set" where
  "BACKFILL_VENUES = {BINANCE, KRAKEN, OKX, BYBIT}"


definition BACKFILL_EXCLUDED_VENUES :: "VenueId set" where
  "BACKFILL_EXCLUDED_VENUES = REALTIME_VENUES - BACKFILL_VENUES"


section \<open>Bar builder (core/bar\_builder.py)\<close>

definition floor_to_minute :: "int \<Rightarrow> int" where
  "floor_to_minute timestamp_ms =
     (timestamp_ms div 1000 div BAR_INTERVAL_SECONDS) * BAR_INTERVAL_SECONDS"

record BarAccumulator =
  a_bar_time :: int
  a_open :: "real option"
  a_high :: "real option"
  a_low :: "real option"
  a_close :: "real option"
  a_volume :: real
  a_trade_count :: int
  a_buy_volume :: real
  a_sell_volume :: real
  a_buy_count :: int
  a_sell_count :: int
  a_venue :: "VenueId option"
  a_asset :: "AssetId option"
  a_market_type :: "MarketType option"

text \<open>\<^verbatim>\<open>BarAccumulator(bar_time=...)\<close>: every other field at its dataclass default.\<close>

definition new_accumulator :: "int \<Rightarrow> BarAccumulator" where
  "new_accumulator bar_time =
     \<lparr>a_bar_time = bar_time, a_open = None, a_high = None, a_low = None, a_close = None,
      a_volume = 0, a_trade_count = 0, a_buy_volume = 0, a_sell_volume = 0,
      a_buy_count = 0, a_sell_count = 0, a_venue = None, a_asset = None,
      a_market_type = None\<rparr>"

text \<open>\<^verbatim>\<open>BarAccumulator.add_trade\<close>. Comparing a float with \<^verbatim>\<open>None\<close> raises
  \<^verbatim>\<open>TypeError\<close> in Python 3.\<close>

definition acc_update_ohlc :: "BarAccumulator \<Rightarrow> Trade \<Rightarrow> error + BarAccumulator" where
  "acc_update_ohlc self trade =
     (let price = t_price trade in
      if a_open self = None then
        Inr (self\<lparr>a_open := Some price, a_high := Some price, a_low := Some price,
                  a_close := Some price, a_venue := Some (t_venue trade),
                  a_asset := Some (t_asset trade),
                  a_market_type := Some (t_market_type trade)\<rparr>)
      else
        (case a_high self of
           None \<Rightarrow> Inl TypeError
         | Some h \<Rightarrow>
             (let s1 = (if price > h then self\<lparr>a_high := Some price\<rparr> else self) in
              case a_low s1 of
                None \<Rightarrow> Inl TypeError
              | Some l \<Rightarrow>
                  (let s2 = (if price < l then s1\<lparr>a_low := Some price\<rparr> else s1)
                   in Inr (s2\<lparr>a_close := Some price\<rparr>)))))"

definition acc_add_trade :: "BarAccumulator \<Rightarrow> Trade \<Rightarrow> error + BarAccumulator" where
  "acc_add_trade self trade =
     (let quantity = t_quantity trade in
      case acc_update_ohlc self trade of
        Inl e \<Rightarrow> Inl e
      | Inr s1 \<Rightarrow>
          (let s2 = s1\<lparr>a_volume := a_volume s1 + quantity,
                         a_trade_count := a_trade_count s1 + 1\<rparr>
           in Inr (if taker_side trade = BUY
                   then s2\<lparr>a_buy_volume := a_buy_volume s2 + quantity,
                             a_buy_count := a_buy_count s2 + 1\<rparr>
                   else s2\<lparr>a_sell_volume := a_sell_volume s2 + quantity,
                             a_sell_count := a_sell_count s2 + 1\<rparr>)))"

text \<open>\<^verbatim>\<open>BarAccumulator.to_bar\<close>: \<^verbatim>\<open>None\<close> when no trade was accumulated. \<^verbatim>\<open>Bar\<close>
  is a pydantic model with float fields, so a missing high, low or close is a
  validation error.\<close>

definition acc_to_bar :: "BarAccumulator \<Rightarrow> bool \<Rightarrow> error + Bar option" where
  "acc_to_bar self is_partial =
     (case (a_open self, a_venue self, a_asset self, a_market_type self) of
        (Some opn, Some venue, Some asset, Some market_type) \<Rightarrow>
          (case (a_high self, a_low self, a_close self) of
             (Some h, Some l, Some c) \<Rightarrow>
               Inr (Some \<lparr>b_time = a_bar_time self, b_open = opn, b_high = h, b_low = l,
                     b_close = c, b_volume = a_volume self,
                     b_trade_count = a_trade_count self,
                     b_buy_volume = a_buy_volume self, b_sell_volume = a_sell_volume self,
                     b_buy_count = a_buy_count self, b_sell_count = a_sell_count self,
                     b_venue = venue, b_asset = asset, b_market_type = market_type,
                     b_is_partial = is_partial\<rparr>)
           | _ \<Rightarrow> Inl ValidationError)
      | _ \<Rightarrow> Inr None)"

definition acc_reset :: "BarAccumulator \<Rightarrow> int \<Rightarrow> BarAccumulator" where
  "acc_reset self new_bar_time =
     self\<lparr>a_bar_time := new_bar_time, a_open := None, a_high := None, a_low := None,
          a_close := None, a_volume := 0, a_trade_count := 0, a_buy_volume := 0,
          a_sell_volume := 0, a_buy_count := 0, a_sell_count := 0\<rparr>"

text \<open>The builder's state. \<open>bb_completed_bars\<close> is the deque (oldest first);
  \<open>bb_emitted\<close> is the trace of the bars handed to \<^verbatim>\<open>on_bar_complete\<close>.\<close>

record BarBuilder =
  bb_venue :: VenueId
  bb_asset :: AssetId
  bb_market_type :: MarketType
  bb_accumulator :: "BarAccumulator option"
  bb_completed_bars :: "Bar list"
  bb_trade_count :: int
  bb_last_trade_time :: "int option"
  bb_emitted :: "Bar list"

definition new_builder :: "VenueId \<Rightarrow> AssetId \<Rightarrow> MarketType \<Rightarrow> BarBuilder" where
  "new_builder venue asset market_type =
     \<lparr>bb_venue = venue, bb_asset = asset, bb_market_type = market_type,
      bb_accumulator = None, bb_completed_bars = [], bb_trade_count = 0,
      bb_last_trade_time = None, bb_emitted = []\<rparr>"

text \<open>\<^verbatim>\<open>deque(maxlen=n).append\<close>: a full deque drops its oldest element.\<close>

definition deque_append :: "nat \<Rightarrow> 'a list \<Rightarrow> 'a \<Rightarrow> 'a list" where
  "deque_append maxlen xs x = (if length xs \<ge> maxlen then tl xs @ [x] else xs @ [x])"

text \<open>The bar-completion branch of \<^verbatim>\<open>BarBuilder.add_trade\<close>.\<close>

definition bb_complete_bar ::
  "BarBuilder \<Rightarrow> BarAccumulator \<Rightarrow> int \<Rightarrow> error + (Bar option \<times> BarBuilder \<times> BarAccumulator)"
where
  "bb_complete_bar self acc trade_bar_time =
     (case acc_to_bar acc False of
        Inl e \<Rightarrow> Inl e
      | Inr completed_bar \<Rightarrow>
          (let s1 = (case completed_bar of
                       None \<Rightarrow> self
                     | Some bar \<Rightarrow>
                         self\<lparr>bb_completed_bars :=
                                 deque_append MAX_BARS_PER_VENUE (bb_completed_bars self) bar,
                               bb_emitted := bb_emitted self @ [bar]\<rparr>);
               acc' = acc_reset acc trade_bar_time
           in Inr (completed_bar, s1\<lparr>bb_trade_count := 0\<rparr>, acc')))"

text \<open>\<^verbatim>\<open>BarBuilder.add_trade\<close>: the completed bar (if any) and the new state.\<close>

definition bb_add_trade :: "BarBuilder \<Rightarrow> Trade \<Rightarrow> error + (Bar option \<times> BarBuilder)" where
  "bb_add_trade self trade =
     (let trade_bar_time = floor_to_minute (t_timestamp trade);
          acc0 = (case bb_accumulator self of
                    None \<Rightarrow> new_accumulator trade_bar_time
                  | Some a \<Rightarrow> a)
      in case (if trade_bar_time > a_bar_time acc0
               then bb_complete_bar self acc0 trade_bar_time
               else Inr (None, self, acc0)) of
           Inl e \<Rightarrow> Inl e
         | Inr (completed_bar, s1, acc1) \<Rightarrow>
             if bb_trade_count s1 \<ge> MAX_TRADE_BUFFER_SIZE
             then Inr (completed_bar, s1\<lparr>bb_accumulator := Some acc1\<rparr>)
             else (case acc_add_trade acc1 trade of
                     Inl e \<Rightarrow> Inl e
                   | Inr acc2 \<Rightarrow>
                       Inr (completed_bar,
                            s1\<lparr>bb_accumulator := Some acc2,
                                bb_trade_count := bb_trade_count s1 + 1,
                                bb_last_trade_time := Some (t_timestamp trade)\<rparr>)))"

section \<open>Outlier filter (core/outlier\_filter.py)\<close>

record VenuePriceInput =
  i_venue :: VenueId
  i_price :: "real option"
  i_last_update_ms :: "int option"
  i_is_connected :: bool

record CompositeResult =
  r_price :: "real option"
  r_venues :: "VenueContribution list"
  r_included_count :: int
  r_total_count :: int
  r_degraded :: bool
  r_degraded_reason :: DegradedReason
  r_is_gap :: bool

text \<open>Python's \<^verbatim>\<open>statistics.median\<close> on a non-empty list: the middle element of the
  sorted data, or the mean of the two middle elements. The only caller guards the empty
  list, on which the library function raises.\<close>

definition statistics_median :: "real list \<Rightarrow> real" where
  "statistics_median data =
     (let s = sort data; n = length s in
      if n mod 2 = 1 then s ! (n div 2)
      else (let i = n div 2 in (s ! (i - 1) + s ! i) / 2))"

definition calculate_median :: "real list \<Rightarrow> real option" where
  "calculate_median prices = (if prices = [] then None else Some (statistics_median prices))"

text \<open>\<^verbatim>\<open>abs((price - median) / median) * 10000\<close> on floats; the two arguments are
  finite floats.\<close>

definition calculate_deviation_bps :: "real \<Rightarrow> real \<Rightarrow> error + pyfloat" where
  "calculate_deviation_bps price median =
     (if median = 0 then Inr (Finite 0)
      else (case float_truediv (float_sub (Finite price) median) median of
              Inl e \<Rightarrow> Inl e
            | Inr q \<Rightarrow> Inr (float_mul (float_abs q) 10000)))"

text \<open>Phase 1 of \<^verbatim>\<open>filter_outliers\<close>: one iteration of the loop over the inputs, on the
  pair of lists (contributions, candidates).\<close>

definition phase1_step ::
  "int \<Rightarrow> MarketType \<Rightarrow> VenueContribution list \<times> (VenueId \<times> real) list \<Rightarrow> VenuePriceInput
   \<Rightarrow> VenueContribution list \<times> (VenueId \<times> real) list"
where
  "phase1_step current_time_ms market_type st inp =
     (case st of (contributions, candidates) \<Rightarrow>
        (let contribution = \<lparr>c_venue = i_venue inp, c_price = i_price inp, c_included = False,
                               c_exclude_reason = None, c_deviation_bps = None\<rparr>
         in if \<not> i_is_connected inp then
              (contributions @ [contribution\<lparr>c_exclude_reason := Some DISCONNECTED\<rparr>],
               candidates)
            else
              (case (i_price inp, i_last_update_ms inp) of
                 (Some price, Some last_update_ms) \<Rightarrow>
                   (let stale_threshold = get_stale_threshold (i_venue inp) market_type;
                        age_ms = current_time_ms - last_update_ms
                    in if age_ms > stale_threshold then
                         (contributions @ [contribution\<lparr>c_exclude_reason := Some STALE\<rparr>],
                          candidates)
                       else
                         (contributions @ [contribution],
                          candidates @ [(i_venue inp, price)]))
               | _ \<Rightarrow>
                   (contributions @ [contribution\<lparr>c_exclude_reason := Some NO_DATA\<rparr>],
                    candidates))))"

definition phase1 ::
  "VenuePriceInput list \<Rightarrow> int \<Rightarrow> MarketType
   \<Rightarrow> VenueContribution list \<times> (VenueId \<times> real) list"
where
  "phase1 inputs current_time_ms market_type =
     foldl (phase1_step current_time_ms market_type) ([], []) inputs"

text \<open>\<^verbatim>\<open>contrib = next(c for c in contributions if c.venue == venue)\<close>, followed by the
  rest of the loop body, which mutates \<^verbatim>\<open>contrib\<close> in place: \<open>body\<close> is run on the first
  contribution of that venue and its result is stored in that position; \<^verbatim>\<open>next\<close> raises
  \<^verbatim>\<open>StopIteration\<close> when there is no such contribution.\<close>

fun with_first ::
  "VenueId \<Rightarrow> (VenueContribution \<Rightarrow> error + VenueContribution \<times> bool)
   \<Rightarrow> VenueContribution list \<Rightarrow> error + VenueContribution list \<times> bool"
where
  "with_first venue body [] = Inl StopIteration"
| "with_first venue body (c # cs) =
     (if c_venue c = venue then
        (case body c of
           Inl e \<Rightarrow> Inl e
         | Inr (c', keep) \<Rightarrow> Inr (c' # cs, keep))
      else
        (case with_first venue body cs of
           Inl e \<Rightarrow> Inl e
         | Inr (cs', keep) \<Rightarrow> Inr (c # cs', keep)))"

text \<open>Phase 3, the loop body after the lookup, for a candidate price: the contribution
  as mutated, and whether the price and venue are appended to the included lists.\<close>

definition phase3_body ::
  "real option \<Rightarrow> real \<Rightarrow> VenueContribution \<Rightarrow> error + VenueContribution \<times> bool"
where
  "phase3_body median price contrib =
     (case median of
        None \<Rightarrow> Inr (contrib\<lparr>c_included := True, c_deviation_bps := Some (Finite 0)\<rparr>, True)
      | Some m \<Rightarrow>
          (case calculate_deviation_bps price m of
             Inl e \<Rightarrow> Inl e
           | Inr deviation \<Rightarrow>
               (let c1 = contrib\<lparr>c_deviation_bps := Some deviation\<rparr> in
                if float_gt deviation (real_of_int OUTLIER_THRESHOLD_BPS) then
                  Inr (c1\<lparr>c_exclude_reason := Some OUTLIER, c_included := False\<rparr>, False)
                else
                  Inr (c1\<lparr>c_included := True\<rparr>, True))))"

fun phase3 ::
  "real option \<Rightarrow> (VenueId \<times> real) list
   \<Rightarrow> VenueContribution list \<times> real list \<times> VenueId list
   \<Rightarrow> error + (VenueContribution list \<times> real list \<times> VenueId list)"
where
  "phase3 median [] st = Inr st"
| "phase3 median ((venue, price) # rest) (contributions, included_prices, included_venues) =
     (case with_first venue (phase3_body median price) contributions of
        Inl e \<Rightarrow> Inl e
      | Inr (contributions', keep) \<Rightarrow>
          if keep
          then phase3 median rest
                 (contributions', included_prices @ [price], included_venues @ [venue])
          else phase3 median rest (contributions', included_prices, included_venues))"

text \<open>The nested function \<^verbatim>\<open>_derive_degraded_reason\<close>, with the variables it closes over
  as arguments.\<close>

definition derive_degraded_reason ::
  "bool \<Rightarrow> bool \<Rightarrow> int \<Rightarrow> VenueContribution list \<Rightarrow> DegradedReason"
where
  "derive_degraded_reason degraded is_gap included_count contributions =
     (if \<not> degraded then NONE
      else
        (let has_disconnected =
               list_ex (\<lambda>c. c_exclude_reason c = Some DISCONNECTED) contributions;
             has_no_data = list_ex (\<lambda>c. c_exclude_reason c = Some NO_DATA) contributions;
             has_stale = list_ex (\<lambda>c. c_exclude_reason c = Some STALE) contributions;
             has_outlier = list_ex (\<lambda>c. c_exclude_reason c = Some OUTLIER) contributions
         in if is_gap then
              (if has_disconnected then VENUE_DISCONNECTED
               else if has_no_data \<or> has_stale then VENUE_STALE
               else if has_outlier then VENUE_OUTLIER
               else if included_count = 1 then SINGLE_SOURCE
               else BELOW_PREFERRED_QUORUM)
            else
              (if has_disconnected then VENUE_DISCONNECTED
               else if has_stale then VENUE_STALE
               else if has_outlier then VENUE_OUTLIER
               else BELOW_PREFERRED_QUORUM)))"

definition filter_outliers ::
  "VenuePriceInput list \<Rightarrow> int \<Rightarrow> MarketType \<Rightarrow> error + CompositeResult"
where
  "filter_outliers inputs current_time_ms market_type =
     (let quorum = get_quorum_config;
          total_count = int (length inputs);
          (contributions, candidates) = phase1 inputs current_time_ms market_type;
          candidate_prices = map snd candidates;
          median = calculate_median candidate_prices
      in case phase3 median candidates (contributions, [], []) of
           Inl e \<Rightarrow> Inl e
         | Inr (contributions', included_prices, included_venues) \<Rightarrow>
             (let included_count = int (length included_prices);
                  final_price = calculate_median included_prices;
                  is_gap = (included_count < min_quorum quorum);
                  degraded = (included_count < preferred_quorum quorum \<or> is_gap);
                  degraded_reason =
                    derive_degraded_reason degraded is_gap included_count contributions'
              in Inr \<lparr>r_price = (if \<not> is_gap then final_price else None),
                      r_venues = contributions',
                      r_included_count = included_count,
                      r_total_count = total_count,
                      r_degraded = degraded,
                      r_degraded_reason = degraded_reason,
                      r_is_gap = is_gap\<rparr>))"

definition build_composite_bar ::
  "int \<Rightarrow> CompositeResult \<Rightarrow> CompositeResult \<Rightarrow> CompositeResult \<Rightarrow> CompositeResult
   \<Rightarrow> real \<Rightarrow> AssetId \<Rightarrow> MarketType \<Rightarrow> real \<Rightarrow> real \<Rightarrow> int \<Rightarrow> int \<Rightarrow> CompositeBar"
where
  "build_composite_bar time open_result high_result low_result close_result total_volume
       asset market_type buy_volume sell_volume buy_count sell_count =
     (let is_gap = r_is_gap close_result;
          excluded_venues =
            concat (map (\<lambda>c. case c_exclude_reason c of
                                None \<Rightarrow> []
                              | Some reason \<Rightarrow> [\<lparr>ev_venue = c_venue c, ev_reason = reason\<rparr>])
                        (r_venues close_result));
          included_venues = map c_venue (filter c_included (r_venues close_result));
          degraded = (r_degraded open_result \<or> r_degraded high_result
                      \<or> r_degraded low_result \<or> r_degraded close_result)
      in \<lparr>cb_time = time,
          cb_open = (if \<not> is_gap then r_price open_result else None),
          cb_high = (if \<not> is_gap then r_price high_result else None),
          cb_low = (if \<not> is_gap then r_price low_result else None),
          cb_close = (if \<not> is_gap then r_price close_result else None),
          cb_volume = (if \<not> is_gap then total_volume else 0),
          cb_buy_volume = (if \<not> is_gap then buy_volume else 0),
          cb_sell_volume = (if \<not> is_gap then sell_volume else 0),
          cb_buy_count = (if \<not> is_gap then buy_count else 0),
          cb_sell_count = (if \<not> is_gap then sell_count else 0),
          cb_degraded = degraded,
          cb_is_gap = is_gap,
          cb_is_backfilled = False,
          cb_included_venues = included_venues,
          cb_excluded_venues = excluded_venues,
          cb_asset = Some asset,
          cb_market_type = Some market_type\<rparr>)"

section \<open>Composite aggregator (aggregator/composite\_aggregator.py)\<close>

text \<open>A dict is an association list in insertion order, with pairwise distinct keys;
  \<open>venue_state\<close>, only ever looked up, is a map.\<close>

definition build_inputs ::
  "(VenueId \<times> Bar option) list \<Rightarrow> (VenueId \<Rightarrow> (bool \<times> int option) option) \<Rightarrow> (Bar \<Rightarrow> real)
   \<Rightarrow> VenuePriceInput list"
where
  "build_inputs venue_bars venue_state price_getter =
     map (\<lambda>(venue, bar).
            (let (is_connected, last_update_ms) =
                   (case venue_state venue of None \<Rightarrow> (False, None) | Some s \<Rightarrow> s)
             in case bar of
                  None \<Rightarrow> \<lparr>i_venue = venue, i_price = None,
                            i_last_update_ms = last_update_ms, i_is_connected = is_connected\<rparr>
                | Some b \<Rightarrow> \<lparr>i_venue = venue, i_price = Some (price_getter b),
                              i_last_update_ms = last_update_ms,
                              i_is_connected = is_connected\<rparr>))
         venue_bars"

text \<open>The summation loop of \<^verbatim>\<open>_build_composite\<close>, on the five running totals.\<close>

definition sum_step ::
  "VenueId set \<Rightarrow> real \<times> real \<times> real \<times> int \<times> int \<Rightarrow> VenueId \<times> Bar option
   \<Rightarrow> real \<times> real \<times> real \<times> int \<times> int"
where
  "sum_step included_venue_set totals item =
     (case totals of
        (total_volume, total_buy_volume, total_sell_volume, total_buy_count, total_sell_count)
        \<Rightarrow>
          (case item of
             (venue, Some bar) \<Rightarrow>
               if venue \<in> included_venue_set then
                 (total_volume + b_volume bar, total_buy_volume + b_buy_volume bar,
                  total_sell_volume + b_sell_volume bar, total_buy_count + b_buy_count bar,
                  total_sell_count + b_sell_count bar)
               else totals
           | (venue, None) \<Rightarrow> totals))"

definition build_composite ::
  "AssetId \<Rightarrow> MarketType \<Rightarrow> int \<Rightarrow> (VenueId \<times> Bar option) list
   \<Rightarrow> (VenueId \<Rightarrow> (bool \<times> int option) option) option
   \<Rightarrow> error + (CompositeBar \<times> CompositeResult)"
where
  "build_composite asset market_type bar_time venue_bars venue_state_arg =
     (let current_time_ms = bar_time * 1000 + BAR_INTERVAL_SECONDS * 1000;
          venue_state = (case venue_state_arg of None \<Rightarrow> Map.empty | Some s \<Rightarrow> s)
      in case filter_outliers (build_inputs venue_bars venue_state b_open)
                current_time_ms market_type of
           Inl e \<Rightarrow> Inl e
         | Inr open_result \<Rightarrow>
      (case filter_outliers (build_inputs venue_bars venue_state b_high)
                current_time_ms market_type of
           Inl e \<Rightarrow> Inl e
         | Inr high_result \<Rightarrow>
      (case filter_outliers (build_inputs venue_bars venue_state b_low)
                current_time_ms market_type of
           Inl e \<Rightarrow> Inl e
         | Inr low_result \<Rightarrow>
      (case filter_outliers (build_inputs venue_bars venue_state b_close)
                current_time_ms market_type of
           Inl e \<Rightarrow> Inl e
         | Inr close_result \<Rightarrow>
             (let included_venue_set = c_venue ` set (filter c_included (r_venues close_result))
              in case foldl (sum_step included_venue_set) (0, 0, 0, 0, 0) venue_bars of
                   (total_volume, total_buy_volume, total_sell_volume, total_buy_count,
                    total_sell_count) \<Rightarrow>
                     Inr (build_composite_bar bar_time open_result high_result low_result
                            close_result total_volume asset market_type total_buy_volume
                            total_sell_volume total_buy_count total_sell_count,
                          close_result))))))"

section \<open>Backfill service (backfill/service.py)\<close>


fun asset_value :: "AssetId \<Rightarrow> string" where
  "asset_value BTC = ''BTC''"
| "asset_value ETH = ''ETH''"

fun market_type_value :: "MarketType \<Rightarrow> string" where
  "market_type_value SPOT = ''spot''"
| "market_type_value PERP = ''perp''"















text \<open>The nested function \<^verbatim>\<open>median\<close> of \<^verbatim>\<open>_build_composite_from_venue_bars\<close>, applied
  there to sorted lists.\<close>

definition backfill_median :: "real list \<Rightarrow> real" where
  "backfill_median values =
     (let n = length values in
      if n = 0 then 0
      else (let mid = n div 2 in
            if n mod 2 = 0 then (values ! (mid - 1) + values ! mid) / 2
            else values ! mid))"

text \<open>\<^verbatim>\<open>_build_composite_from_venue_bars\<close>; \<open>venue_bars\<close> is a dict. The loop that builds
  \<open>excluded_venues\<close> runs over a Python set, whose iteration order is unspecified; the
  model takes the order of the enabled list.\<close>

definition build_composite_from_venue_bars ::
  "(VenueId \<times> Bar) list \<Rightarrow> int \<Rightarrow> AssetId \<Rightarrow> MarketType \<Rightarrow> CompositeBar option"
where
  "build_composite_from_venue_bars venue_bars bar_time asset market_type =
     (if venue_bars = [] then None
      else
        (let bars = map snd venue_bars;
             opens = sort (map b_open bars);
             highs = sort (map b_high bars);
             lows = sort (map b_low bars);
             closes = sort (map b_close bars);
             total_volume = sum_list (map b_volume bars);
             total_buy_volume = sum_list (map b_buy_volume bars);
             total_sell_volume = sum_list (map b_sell_volume bars);
             total_buy_count = sum_list (map b_buy_count bars);
             total_sell_count = sum_list (map b_sell_count bars);
             degraded = (length bars < 3);
             enabled_venues = remdups (get_enabled_venues market_type);
             included_venue_ids = set (map fst venue_bars);
             excluded_venues =
               map (\<lambda>venue_id.
                      \<lparr>ev_venue = venue_id,
                       ev_reason = (if venue_id \<in> BACKFILL_EXCLUDED_VENUES
                                    then BACKFILL_UNAVAILABLE else NO_DATA)\<rparr>)
                   (filter (\<lambda>venue_id. venue_id \<notin> included_venue_ids) enabled_venues)
         in Some \<lparr>cb_time = bar_time,
                  cb_open = Some (backfill_median opens),
                  cb_high = Some (backfill_median highs),
                  cb_low = Some (backfill_median lows),
                  cb_close = Some (backfill_median closes),
                  cb_volume = total_volume,
                  cb_buy_volume = total_buy_volume,
                  cb_sell_volume = total_sell_volume,
                  cb_buy_count = total_buy_count,
                  cb_sell_count = total_sell_count,
                  cb_degraded = degraded,
                  cb_is_gap = False,
                  cb_is_backfilled = True,
                  cb_included_venues = map fst venue_bars,
                  cb_excluded_venues = excluded_venues,
                  cb_asset = Some asset,
                  cb_market_type = Some market_type\<rparr>))"







section \<open>Composite bar repository (persistence/repository.py)\<close>

text \<open>The table \<^verbatim>\<open>composite_bars\<close>: a map from the primary key (time, asset,
  market\_type) to the other columns of the row. \<^verbatim>\<open>CompositeBarRepository.insert\<close> is the
  statement \<^verbatim>\<open>INSERT ... ON CONFLICT (time, asset, market_type) DO UPDATE SET ...\<close>, in a
  run in which the database does not fail; it returns whether a new row was inserted.\<close>

record CompositeRow =
  row_open :: "real option"
  row_high :: "real option"
  row_low :: "real option"
  row_close :: "real option"
  row_volume :: real
  row_buy_volume :: real
  row_sell_volume :: real
  row_buy_count :: int
  row_sell_count :: int
  row_degraded :: bool
  row_is_gap :: bool
  row_is_backfilled :: bool
  row_included_venues :: "VenueId list"
  row_excluded_venues :: "ExcludedVenue list"

type_synonym composite_key = "int \<times> string \<times> string"

type_synonym composite_table = "composite_key \<Rightarrow> CompositeRow option"

definition key_of_bar :: "CompositeBar \<Rightarrow> composite_key" where
  "key_of_bar bar =
     (cb_time bar,
      (case cb_asset bar of Some a \<Rightarrow> asset_value a | None \<Rightarrow> ''BTC''),
      (case cb_market_type bar of Some m \<Rightarrow> market_type_value m | None \<Rightarrow> ''spot''))"

text \<open>The row of the \<^verbatim>\<open>VALUES\<close> clause (\<^verbatim>\<open>EXCLUDED\<close> in the update).\<close>

definition excluded_row :: "CompositeBar \<Rightarrow> CompositeRow" where
  "excluded_row bar =
     \<lparr>row_open = cb_open bar, row_high = cb_high bar, row_low = cb_low bar,
      row_close = cb_close bar, row_volume = cb_volume bar,
      row_buy_volume = cb_buy_volume bar, row_sell_volume = cb_sell_volume bar,
      row_buy_count = cb_buy_count bar, row_sell_count = cb_sell_count bar,
      row_degraded = cb_degraded bar, row_is_gap = cb_is_gap bar,
      row_is_backfilled = cb_is_backfilled bar,
      row_included_venues = cb_included_venues bar,
      row_excluded_venues = cb_excluded_venues bar\<rparr>"

definition repo_insert :: "composite_table \<Rightarrow> CompositeBar \<Rightarrow> bool \<times> composite_table" where
  "repo_insert table bar =
     (let excluded = excluded_row bar; k = key_of_bar bar in
      case table k of
        None \<Rightarrow> (True, table(k \<mapsto> excluded))
      | Some existing \<Rightarrow>
          (False,
           table(k \<mapsto> excluded\<lparr>row_is_backfilled :=
             (if row_is_backfilled existing = True then True
              else if row_is_gap existing = True \<and> row_is_gap excluded = False then True
              else row_is_backfilled excluded)\<rparr>)))"

text \<open>A sequence of upserts, as \<^verbatim>\<open>insert_batch\<close> or repeated calls of \<^verbatim>\<open>insert\<close> run
  them.\<close>

definition repo_insert_all :: "composite_table \<Rightarrow> CompositeBar list \<Rightarrow> composite_table" where
  "repo_insert_all table bars = foldl (\<lambda>t bar. snd (repo_insert t bar)) table bars"

section \<open>Notions used to state the properties\<close>

text \<open>The first three exclusion rules of the filter, as a function of one input: the
  reason for which a venue is excluded before any median is computed, if any.\<close>

definition early_exclusion :: "int \<Rightarrow> MarketType \<Rightarrow> VenuePriceInput \<Rightarrow> ExcludeReason option" where
  "early_exclusion now market_type inp =
     (if \<not> i_is_connected inp then Some DISCONNECTED
      else if i_price inp = None \<or> i_last_update_ms inp = None then Some NO_DATA
      else if now - the (i_last_update_ms inp) > get_stale_threshold (i_venue inp) market_type
      then Some STALE
      else None)"

text \<open>The survivors of the first three rules, and their prices.\<close>

definition survivors :: "int \<Rightarrow> MarketType \<Rightarrow> VenuePriceInput list \<Rightarrow> VenuePriceInput list" where
  "survivors now market_type inputs =
     filter (\<lambda>inp. early_exclusion now market_type inp = None) inputs"

definition price_of :: "VenuePriceInput \<Rightarrow> real" where
  "price_of inp = the (i_price inp)"

text \<open>The deviation from a reference median in basis points, and the outlier test:
  more than 100 bps away. (For a positive median this is
  \<open>\<bar>price - median\<bar> / median * 10000\<close>; division by zero is zero in HOL, which
  is the value the code returns for a zero median.)\<close>

definition deviation_bps :: "real \<Rightarrow> real \<Rightarrow> real" where
  "deviation_bps price median = \<bar>price - median\<bar> / \<bar>median\<bar> * 10000"

text \<open>The float that the deviation is computed to: infinite when the difference, the
  quotient or the product leaves the range of doubles, and the exact deviation
  otherwise.\<close>

definition deviation_overflows :: "real \<Rightarrow> real \<Rightarrow> bool" where
  "deviation_overflows price median =
     (median \<noteq> 0
      \<and> (in_range price \<and> in_range median \<and> \<not> in_range (price - median)
         \<or> in_range (price - median) \<and> in_range median
            \<and> \<not> in_range ((price - median) / median)
         \<or> in_range ((price - median) / median)
            \<and> \<not> in_range (\<bar>(price - median) / median\<bar> * 10000)))"

definition float_deviation :: "real \<Rightarrow> real \<Rightarrow> pyfloat" where
  "float_deviation price median =
     (if deviation_overflows price median then PosInf
      else Finite (deviation_bps price median))"

definition is_outlier :: "real option \<Rightarrow> real \<Rightarrow> bool" where
  "is_outlier median price =
     (case median of
        None \<Rightarrow> False
      | Some m \<Rightarrow> deviation_bps price m > 100)"

text \<open>The reference median of an input list, and the prices that survive all rules.\<close>

definition reference_median :: "int \<Rightarrow> MarketType \<Rightarrow> VenuePriceInput list \<Rightarrow> real option" where
  "reference_median now market_type inputs =
     calculate_median (map price_of (survivors now market_type inputs))"

definition final_survivors ::
  "int \<Rightarrow> MarketType \<Rightarrow> VenuePriceInput list \<Rightarrow> VenuePriceInput list"
where
  "final_survivors now market_type inputs =
     filter (\<lambda>inp. \<not> is_outlier (reference_median now market_type inputs) (price_of inp))
       (survivors now market_type inputs)"

text \<open>The contribution record that phase 1 creates for an input, the candidate pair of
  a survivor, the assignments of phase 3 as a function, and the record that the filter
  leaves for an input when no other input has its venue.\<close>

definition init_contribution :: "int \<Rightarrow> MarketType \<Rightarrow> VenuePriceInput \<Rightarrow> VenueContribution" where
  "init_contribution now market_type inp =
     \<lparr>c_venue = i_venue inp, c_price = i_price inp, c_included = False,
      c_exclude_reason = early_exclusion now market_type inp, c_deviation_bps = None\<rparr>"

definition cand_of :: "VenuePriceInput \<Rightarrow> VenueId \<times> real" where
  "cand_of inp = (i_venue inp, price_of inp)"

definition phase3_assign :: "real option \<Rightarrow> real \<Rightarrow> VenueContribution \<Rightarrow> VenueContribution" where
  "phase3_assign median price c =
     (case median of
        None \<Rightarrow> c\<lparr>c_included := True, c_deviation_bps := Some (Finite 0)\<rparr>
      | Some m \<Rightarrow>
          if deviation_bps price m > 100
          then c\<lparr>c_deviation_bps := Some (float_deviation price m),
                 c_exclude_reason := Some OUTLIER, c_included := False\<rparr>
          else c\<lparr>c_deviation_bps := Some (float_deviation price m), c_included := True\<rparr>)"

definition final_contribution ::
  "real option \<Rightarrow> int \<Rightarrow> MarketType \<Rightarrow> VenuePriceInput \<Rightarrow> VenueContribution"
where
  "final_contribution median now market_type inp =
     (if early_exclusion now market_type inp = None
      then phase3_assign median (price_of inp) (init_contribution now market_type inp)
      else init_contribution now market_type inp)"

definition apply_cands ::
  "real option \<Rightarrow> (VenueId \<times> real) list \<Rightarrow> VenueContribution \<Rightarrow> VenueContribution"
where
  "apply_cands median cands c =
     (case map_of cands (c_venue c) of
        None \<Rightarrow> c
      | Some p \<Rightarrow> phase3_assign median p c)"

text \<open>The result record of the filter, given the final contribution records.\<close>

definition result_of ::
  "VenuePriceInput list \<Rightarrow> int \<Rightarrow> MarketType \<Rightarrow> VenueContribution list \<Rightarrow> CompositeResult"
where
  "result_of inputs now market_type cs =
     (let n = length (final_survivors now market_type inputs) in
      \<lparr>r_price = (if n < 2 then None
                  else calculate_median (map price_of (final_survivors now market_type inputs))),
       r_venues = cs,
       r_included_count = int n,
       r_total_count = int (length inputs),
       r_degraded = (n < 3),
       r_degraded_reason = derive_degraded_reason (n < 3) (n < 2) (int n) cs,
       r_is_gap = (n < 2)\<rparr>)"

text \<open>The flow of one entry of \<open>venue_bars\<close> into a composite total: the field of its bar
  when the venue is in the included set, and nothing otherwise.\<close>

definition flow_of :: "VenueId set \<Rightarrow> (Bar \<Rightarrow> 'a::zero) \<Rightarrow> VenueId \<times> Bar option \<Rightarrow> 'a" where
  "flow_of included field item =
     (case item of
        (venue, Some bar) \<Rightarrow> if venue \<in> included then field bar else 0
      | (venue, None) \<Rightarrow> 0)"

text \<open>The connector states that the realtime build uses: the empty dict when the argument
  is \<^verbatim>\<open>None\<close>.\<close>

definition state_of ::
  "(VenueId \<Rightarrow> (bool \<times> int option) option) option \<Rightarrow> VenueId \<Rightarrow> (bool \<times> int option) option"
where
  "state_of venue_state_arg = (case venue_state_arg of None \<Rightarrow> Map.empty | Some s \<Rightarrow> s)"

text \<open>The time that the realtime build passes to the filter for a bar time.\<close>

definition close_time_ms :: "int \<Rightarrow> int" where
  "close_time_ms bar_time = bar_time * 1000 + 60000"

text \<open>The outlier filter of one OHLC component applied to the venue bars of a backfilled
  minute, as the specification of the backfill composite words it: every venue that has a
  bar is connected (a disconnected venue is absent) and fresh (its last update is the
  time of the computation, so that no venue is stale).\<close>

definition backfill_filter_inputs ::
  "(Bar \<Rightarrow> real) \<Rightarrow> (VenueId \<times> Bar) list \<Rightarrow> int \<Rightarrow> VenuePriceInput list"
where
  "backfill_filter_inputs component venue_bars now =
     map (\<lambda>(venue, bar).
            \<lparr>i_venue = venue, i_price = Some (component bar), i_last_update_ms = Some now,
             i_is_connected = True\<rparr>)
         venue_bars"

definition spec_backfill_component ::
  "(Bar \<Rightarrow> real) \<Rightarrow> (VenueId \<times> Bar) list \<Rightarrow> int \<Rightarrow> MarketType \<Rightarrow> error + real option"
where
  "spec_backfill_component component venue_bars now market_type =
     (case filter_outliers (backfill_filter_inputs component venue_bars now) now market_type of
        Inl e \<Rightarrow> Inl e
      | Inr r \<Rightarrow> Inr (r_price r))"

text \<open>No venue bar deviates in a component by more than 100 bps from the median of
  that component over all venue bars.\<close>

definition no_outlier_in :: "(Bar \<Rightarrow> real) \<Rightarrow> (VenueId \<times> Bar) list \<Rightarrow> bool" where
  "no_outlier_in component venue_bars =
     list_all (\<lambda>(venue, bar).
                 \<not> is_outlier (calculate_median (map (component \<circ> snd) venue_bars))
                      (component bar))
              venue_bars"





section \<open>Example data\<close>

text \<open>Concrete values on which the properties below are exercised.\<close>

definition example_trade :: "int \<Rightarrow> real \<Rightarrow> real \<Rightarrow> Trade" where
  "example_trade ts price quantity =
     \<lparr>t_timestamp = ts, t_local_timestamp = ts, t_price = price, t_quantity = quantity,
      t_is_buyer_maker = False, t_venue = BINANCE, t_asset = BTC, t_market_type = SPOT\<rparr>"

definition example_composite_bar :: "bool \<Rightarrow> bool \<Rightarrow> CompositeBar" where
  "example_composite_bar is_gap is_backfilled =
     \<lparr>cb_time = 60,
      cb_open = (if is_gap then None else Some 100),
      cb_high = (if is_gap then None else Some 100),
      cb_low = (if is_gap then None else Some 100),
      cb_close = (if is_gap then None else Some 100),
      cb_volume = 0, cb_buy_volume = 0, cb_sell_volume = 0, cb_buy_count = 0,
      cb_sell_count = 0, cb_degraded = True, cb_is_gap = is_gap,
      cb_is_backfilled = is_backfilled, cb_included_venues = [], cb_excluded_venues = [],
      cb_asset = Some BTC, cb_market_type = Some SPOT\<rparr>"

definition example_input :: "VenueId \<Rightarrow> real \<Rightarrow> int \<Rightarrow> bool \<Rightarrow> VenuePriceInput" where
  "example_input venue price last_update_ms is_connected =
     \<lparr>i_venue = venue, i_price = Some price, i_last_update_ms = Some last_update_ms,
      i_is_connected = is_connected\<rparr>"

definition example_contribution ::
  "VenueId \<Rightarrow> real \<Rightarrow> bool \<Rightarrow> ExcludeReason option \<Rightarrow> real option \<Rightarrow> VenueContribution"
where
  "example_contribution venue price included reason deviation =
     \<lparr>c_venue = venue, c_price = Some price, c_included = included,
      c_exclude_reason = reason, c_deviation_bps = map_option Finite deviation\<rparr>"

definition example_bar :: "VenueId \<Rightarrow> real \<Rightarrow> real \<Rightarrow> real \<Rightarrow> real \<Rightarrow> real \<Rightarrow> Bar" where
  "example_bar venue opn high low cls volume =
     \<lparr>b_time = 0, b_open = opn, b_high = high, b_low = low, b_close = cls,
      b_volume = volume, b_trade_count = 3, b_buy_volume = volume, b_sell_volume = 0,
      b_buy_count = 3, b_sell_count = 0, b_venue = venue, b_asset = BTC,
      b_market_type = SPOT, b_is_partial = False\<rparr>"

text \<open>A connector state in which every venue is connected and was last updated at
  59000 ms.\<close>

definition example_state :: "VenueId \<Rightarrow> (bool \<times> int option) option" where
  "example_state venue = Some (True, Some 59000)"



section \<open>Bar builder: a trade of an earlier minute\<close>

text \<open>In general: while a current bar exists and the per-minute cap is not reached, a
  trade of an earlier minute completes no bar and leaves the completed bars alone, but
  it is added to the current accumulator like a trade of the current minute.\<close>

lemma late_trade_is_accumulated:
  assumes "bb_accumulator s = Some acc"
    and "floor_to_minute (t_timestamp trade) < a_bar_time acc"
    and "bb_trade_count s < MAX_TRADE_BUFFER_SIZE"
    and "acc_add_trade acc trade = Inr acc'"
  shows "bb_add_trade s trade =
     Inr (None, s\<lparr>bb_accumulator := Some acc',
                   bb_trade_count := bb_trade_count s + 1,
                   bb_last_trade_time := Some (t_timestamp trade)\<rparr>)"
  using assms by (simp add: bb_add_trade_def Let_def)

lemma acc_add_trade_fields:
  assumes "acc_add_trade acc trade = Inr acc'"
  shows "a_volume acc' = a_volume acc + t_quantity trade"
    and "a_trade_count acc' = a_trade_count acc + 1"
    and "a_close acc' = Some (t_price trade)"
    and "a_bar_time acc' = a_bar_time acc"
  using assms
  by (auto simp: acc_add_trade_def acc_update_ohlc_def Let_def
      split: sum.splits option.splits if_splits)

text \<open>
  C1. A trade whose minute lies strictly before the current bar's minute is supposed to be
  dropped. \<^verbatim>\<open>BarBuilder.add_trade\<close> only tests \<open>trade_bar_time > bar_time\<close>; a late
  trade completes no bar and touches no completed bar, but it falls through to
  \<^verbatim>\<open>BarAccumulator.add_trade\<close> and is merged into the current bar. The theorem runs the
  builder on a trade at 60000 ms (price 100, quantity 1), which opens the bar of minute
  60, and then on a trade at 59000 ms (minute 0, price 50, quantity 2): the current bar's
  low and close become 50, its volume 3 and its trade count 2.
\<close>

theorem late_trade_is_merged_into_current_bar:
  "\<exists>s1 s2 acc.
     bb_add_trade (new_builder BINANCE BTC SPOT) (example_trade 60000 100 1) = Inr (None, s1)
     \<and> map_option a_bar_time (bb_accumulator s1) = Some 60
     \<and> map_option a_low (bb_accumulator s1) = Some (Some 100)
     \<and> map_option a_close (bb_accumulator s1) = Some (Some 100)
     \<and> map_option a_volume (bb_accumulator s1) = Some 1
     \<and> map_option a_trade_count (bb_accumulator s1) = Some 1
     \<and> floor_to_minute 59000 = 0
     \<and> bb_add_trade s1 (example_trade 59000 50 2) = Inr (None, s2)
     \<and> bb_accumulator s2 = Some acc
     \<and> a_bar_time acc = 60 \<and> a_open acc = Some 100 \<and> a_high acc = Some 100
     \<and> a_low acc = Some 50 \<and> a_close acc = Some 50
     \<and> a_volume acc = 3 \<and> a_trade_count acc = 2
     \<and> a_buy_volume acc = 3 \<and> a_buy_count acc = 2
     \<and> bb_completed_bars s2 = [] \<and> bb_emitted s2 = []"
  by (simp add: bb_add_trade_def new_builder_def new_accumulator_def floor_to_minute_def
      BAR_INTERVAL_SECONDS_def MAX_TRADE_BUFFER_SIZE_def acc_add_trade_def acc_update_ohlc_def
      taker_side_def example_trade_def Let_def)

section \<open>Repository: the backfilled flag is monotonic\<close>

lemma repo_insert_keeps_backfilled:
  "table k = Some r \<Longrightarrow> row_is_backfilled r \<Longrightarrow>
   \<exists>r'. snd (repo_insert table bar) k = Some r' \<and> row_is_backfilled r'"
  by (auto simp: repo_insert_def Let_def split: option.splits)

lemma repo_insert_all_keeps_backfilled:
  "table k = Some r \<Longrightarrow> row_is_backfilled r \<Longrightarrow>
   \<exists>r'. repo_insert_all table bars k = Some r' \<and> row_is_backfilled r'"
proof (induction bars arbitrary: table r)
  case Nil
  then show ?case by (simp add: repo_insert_all_def)
next
  case (Cons bar bars)
  from Cons.prems repo_insert_keeps_backfilled [of table k r bar]
  obtain r1 where r1: "snd (repo_insert table bar) k = Some r1" "row_is_backfilled r1"
    by blast
  from Cons.IH [of "snd (repo_insert table bar)" r1] r1 show ?case
    by (simp add: repo_insert_all_def)
qed

lemma repo_insert_repairs_gap:
  "table (key_of_bar bar) = Some r \<Longrightarrow> row_is_gap r \<Longrightarrow> \<not> cb_is_gap bar \<Longrightarrow>
   \<exists>r'. snd (repo_insert table bar) (key_of_bar bar) = Some r'
        \<and> row_is_backfilled r' \<and> \<not> row_is_gap r'"
  by (auto simp: repo_insert_def Let_def excluded_row_def split: option.splits)

text \<open>
  C7. Once the row stored under a key has \<open>is_backfilled = true\<close>, it has it after any
  further sequence of upserts (whatever their keys and flags); in particular one upsert
  of a bar with \<open>is_backfilled = false\<close> over such a row leaves the flag true. And an
  upsert of a bar that is no gap over a stored gap row stores a row that is no gap and
  has \<open>is_backfilled = true\<close>.
\<close>

theorem upsert_is_backfilled_monotonic:
  "(table k = Some r \<and> row_is_backfilled r \<longrightarrow>
      (\<exists>r'. repo_insert_all table bars k = Some r' \<and> row_is_backfilled r'))
   \<and> (table1 (key_of_bar bar1) = Some r1 \<and> row_is_backfilled r1 \<and> \<not> cb_is_backfilled bar1 \<longrightarrow>
      (\<exists>r'. snd (repo_insert table1 bar1) (key_of_bar bar1) = Some r' \<and> row_is_backfilled r'))
   \<and> (table2 (key_of_bar bar2) = Some r2 \<and> row_is_gap r2 \<and> \<not> cb_is_gap bar2 \<longrightarrow>
      (\<exists>r'. snd (repo_insert table2 bar2) (key_of_bar bar2) = Some r'
            \<and> row_is_backfilled r' \<and> \<not> row_is_gap r'))"
  using repo_insert_all_keeps_backfilled [of table k r bars]
    repo_insert_keeps_backfilled [of table1 "key_of_bar bar1" r1 bar1]
    repo_insert_repairs_gap [of table2 bar2 r2]
  by blast

theorem upsert_is_backfilled_monotonic_witness:
  "(\<exists>r'. repo_insert_all
            [key_of_bar (example_composite_bar False False)
               \<mapsto> excluded_row (example_composite_bar False True)]
            [example_composite_bar False False, example_composite_bar True False]
            (key_of_bar (example_composite_bar False False)) = Some r'
         \<and> row_is_backfilled r')
   \<and> (\<exists>r'. snd (repo_insert
                  [key_of_bar (example_composite_bar False False)
                     \<mapsto> excluded_row (example_composite_bar False True)]
                  (example_composite_bar False False))
            (key_of_bar (example_composite_bar False False)) = Some r'
         \<and> row_is_backfilled r')
   \<and> (\<exists>r'. snd (repo_insert
                  [key_of_bar (example_composite_bar False False)
                     \<mapsto> excluded_row (example_composite_bar True False)]
                  (example_composite_bar False False))
            (key_of_bar (example_composite_bar False False)) = Some r'
         \<and> row_is_backfilled r' \<and> \<not> row_is_gap r')"
  using upsert_is_backfilled_monotonic
    [of "[key_of_bar (example_composite_bar False False)
            \<mapsto> excluded_row (example_composite_bar False True)]"
        "key_of_bar (example_composite_bar False False)"
        "excluded_row (example_composite_bar False True)"
        "[example_composite_bar False False, example_composite_bar True False]"
        "[key_of_bar (example_composite_bar False False)
            \<mapsto> excluded_row (example_composite_bar False True)]"
        "example_composite_bar False False"
        "excluded_row (example_composite_bar False True)"
        "[key_of_bar (example_composite_bar False False)
            \<mapsto> excluded_row (example_composite_bar True False)]"
        "example_composite_bar False False"
        "excluded_row (example_composite_bar True False)"]
  by (simp add: example_composite_bar_def excluded_row_def)

section \<open>Outlier filter: the phases in closed form\<close>

subsection \<open>Phase 1\<close>

lemma phase1_step_eq:
  "phase1_step now mt (cs, cands) inp =
     (cs @ [init_contribution now mt inp],
      cands @ (if early_exclusion now mt inp = None then [cand_of inp] else []))"
  by (auto simp: phase1_step_def init_contribution_def early_exclusion_def cand_of_def
      price_of_def Let_def split: option.splits)

lemma phase1_foldl:
  "foldl (phase1_step now mt) (cs, cands) inputs =
     (cs @ map (init_contribution now mt) inputs,
      cands @ map cand_of (survivors now mt inputs))"
  by (induction inputs arbitrary: cs cands) (simp_all add: phase1_step_eq survivors_def)

lemma phase1_eq:
  "phase1 inputs now mt =
     (map (init_contribution now mt) inputs, map cand_of (survivors now mt inputs))"
  by (simp add: phase1_def phase1_foldl)

subsection \<open>The deviation and the loop body of phase 3\<close>

lemma DBL_OVERFLOW_large: "10000 < DBL_OVERFLOW"
  by (simp add: DBL_OVERFLOW_def)

lemma in_range_small: "\<bar>x\<bar> < 2 ^ 64 \<Longrightarrow> in_range x"
proof -
  have "(2::real) ^ 64 < DBL_OVERFLOW" by (simp add: DBL_OVERFLOW_def)
  then show "\<bar>x\<bar> < 2 ^ 64 \<Longrightarrow> in_range x" by (simp add: in_range_def)
qed

lemma in_range_10000: "in_range 10000"
  by (rule in_range_small) simp

lemma in_range_abs [simp]: "in_range \<bar>x\<bar> = in_range x"
  by (simp add: in_range_def)

lemma not_in_range_pos: "\<not> in_range (\<bar>q\<bar> * 10000) \<Longrightarrow> 0 < \<bar>q\<bar> * 10000"
proof -
  assume "\<not> in_range (\<bar>q\<bar> * 10000)"
  then have "DBL_OVERFLOW \<le> \<bar>\<bar>q\<bar> * 10000\<bar>" by (simp only: in_range_def not_less)
  then have "DBL_OVERFLOW \<le> \<bar>q\<bar> * 10000" by simp
  with DBL_OVERFLOW_large show ?thesis by linarith
qed

text \<open>An infinite difference or quotient ends in positive infinity.\<close>

lemma infinite_quotient:
  "r = PosInf \<or> r = NegInf \<Longrightarrow> float_mul (float_abs r) 10000 = PosInf"
  by auto

lemma infinite_difference:
  "median \<noteq> 0 \<Longrightarrow> r = PosInf \<or> r = NegInf \<Longrightarrow>
   \<exists>q. float_truediv r median = Inr q \<and> (q = PosInf \<or> q = NegInf)"
  by auto

lemma float_result_cases:
  "float_result a b x =
     (if in_range a \<and> in_range b \<and> \<not> in_range x
      then (if 0 < x then PosInf else NegInf) else Finite x)"
  by (simp add: float_result_def)

lemma float_result_inf:
  "in_range a \<Longrightarrow> in_range b \<Longrightarrow> \<not> in_range x \<Longrightarrow>
   float_result a b x = PosInf \<or> float_result a b x = NegInf"
  by (simp add: float_result_def)

lemma float_result_fin:
  "\<not> (in_range a \<and> in_range b \<and> \<not> in_range x) \<Longrightarrow> float_result a b x = Finite x"
  by (simp add: float_result_def)

lemma float_mul_abs_overflow:
  assumes "in_range q" and "\<not> in_range (\<bar>q\<bar> * 10000)"
  shows "float_result \<bar>q\<bar> 10000 (\<bar>q\<bar> * 10000) = PosInf"
proof -
  from assms(1) have "in_range \<bar>q\<bar>" by (simp only: in_range_abs)
  with assms(2) in_range_10000 not_in_range_pos [OF assms(2)] show ?thesis
    by (simp only: float_result_def if_True simp_thms)
qed

lemma float_mul_abs_finite:
  assumes "\<not> (in_range q \<and> \<not> in_range (\<bar>q\<bar> * 10000))"
  shows "float_result \<bar>q\<bar> 10000 (\<bar>q\<bar> * 10000) = Finite (\<bar>q\<bar> * 10000)"
proof (rule float_result_fin)
  from assms show "\<not> (in_range \<bar>q\<bar> \<and> in_range 10000 \<and> \<not> in_range (\<bar>q\<bar> * 10000))"
    by (simp only: in_range_abs) blast
qed

lemma calculate_deviation_bps_eq:
  "calculate_deviation_bps price median = Inr (float_deviation price median)"
proof (cases "median = 0")
  case True
  then show ?thesis
    by (simp add: calculate_deviation_bps_def float_deviation_def deviation_overflows_def
        deviation_bps_def)
next
  case m: False
  define x where "x = price - median"
  define q where "q = x / median"
  have dev: "deviation_bps price median = \<bar>q\<bar> * 10000"
    unfolding q_def x_def by (simp add: deviation_bps_def abs_divide)
  have ovf_iff: "deviation_overflows price median \<longleftrightarrow>
      (in_range price \<and> in_range median \<and> \<not> in_range x)
      \<or> (in_range x \<and> in_range median \<and> \<not> in_range q)
      \<or> (in_range q \<and> \<not> in_range (\<bar>q\<bar> * 10000))"
    using m unfolding deviation_overflows_def q_def x_def by (simp only: simp_thms)
  have unfold: "calculate_deviation_bps price median =
      (case float_truediv (float_result price median x) median of
         Inl e \<Rightarrow> Inl e
       | Inr q \<Rightarrow> Inr (float_mul (float_abs q) 10000))"
    using m unfolding x_def by (simp add: calculate_deviation_bps_def)
  have div: "float_truediv (Finite x) median = Inr (float_result x median q)"
    using m unfolding q_def by simp
  have mul: "float_mul (float_abs (Finite q)) 10000
      = float_result \<bar>q\<bar> 10000 (\<bar>q\<bar> * 10000)"
    by simp
  show ?thesis
  proof (cases "in_range price \<and> in_range median \<and> \<not> in_range x")
    case True
    then have ovf: "deviation_overflows price median"
      by (simp only: ovf_iff simp_thms)
    from True have "float_result price median x = PosInf \<or> float_result price median x = NegInf"
      by (simp add: float_result_inf)
    from infinite_difference [OF m this] obtain r where
      "float_truediv (float_result price median x) median = Inr r" "r = PosInf \<or> r = NegInf"
      by blast
    with infinite_quotient [of r] ovf show ?thesis
      unfolding unfold by (simp add: float_deviation_def)
  next
    case A: False
    then have r1: "float_result price median x = Finite x"
      by (rule float_result_fin)
    show ?thesis
    proof (cases "in_range x \<and> in_range median \<and> \<not> in_range q")
      case True
      then have ovf: "deviation_overflows price median"
        by (simp only: ovf_iff simp_thms)
      from True have "float_result x median q = PosInf \<or> float_result x median q = NegInf"
        by (simp add: float_result_inf)
      from infinite_quotient [OF this] ovf show ?thesis
        by (simp only: unfold r1 div sum.case float_deviation_def if_True)
    next
      case B: False
      then have r2: "float_result x median q = Finite q"
        by (rule float_result_fin)
      have step: "calculate_deviation_bps price median
          = Inr (float_mul (float_abs (Finite q)) 10000)"
        by (simp only: unfold r1 div r2 sum.case)
      show ?thesis
      proof (cases "in_range q \<and> \<not> in_range (\<bar>q\<bar> * 10000)")
        case True
        then have ovf: "deviation_overflows price median"
          by (simp only: ovf_iff simp_thms)
        from True have "float_result \<bar>q\<bar> 10000 (\<bar>q\<bar> * 10000) = PosInf"
          by (intro float_mul_abs_overflow) simp_all
        with ovf step show ?thesis
          by (simp only: mul float_deviation_def if_True)
      next
        case C: False
        with A B have novf: "\<not> deviation_overflows price median"
          unfolding ovf_iff by blast
        from C have "float_result \<bar>q\<bar> 10000 (\<bar>q\<bar> * 10000) = Finite (\<bar>q\<bar> * 10000)"
          by (rule float_mul_abs_finite)
        with novf step show ?thesis
          by (simp only: mul float_deviation_def dev if_False)
      qed
    qed
  qed
qed

lemma scaled_ge: "0 \<le> (a::real) \<Longrightarrow> a \<le> a * 10000"
  by simp

lemma scaled_gt: "1 < (a::real) \<Longrightarrow> 100 < a * 10000"
  by simp

lemma deviation_bps_quotient:
  "deviation_bps price median = \<bar>(price - median) / median\<bar> * 10000"
  by (simp add: deviation_bps_def abs_divide)

lemma not_in_range_ge: "\<not> in_range x \<Longrightarrow> DBL_OVERFLOW \<le> \<bar>x\<bar>"
  by (simp only: in_range_def not_less)

lemma deviation_overflows_large:
  assumes "deviation_overflows price median"
  shows "100 < deviation_bps price median"
proof -
  define x where "x = price - median"
  define a where "a = \<bar>x / median\<bar>"
  from assms have m: "median \<noteq> 0" by (simp add: deviation_overflows_def)
  have dev: "deviation_bps price median = a * 10000"
    unfolding a_def x_def by (rule deviation_bps_quotient)
  have a0: "0 \<le> a" unfolding a_def by simp
  from assms consider
      (sub) "in_range median" "\<not> in_range x"
    | (quot) "\<not> in_range (x / median)"
    | (prod) "\<not> in_range (a * 10000)"
    unfolding deviation_overflows_def x_def a_def by blast
  then show ?thesis
  proof cases
    case sub
    then have "\<bar>median\<bar> < \<bar>x\<bar>" by (simp add: in_range_def)
    with m have "1 < \<bar>x\<bar> / \<bar>median\<bar>" by simp
    then have "1 < a" unfolding a_def by (simp only: abs_divide)
    then show ?thesis unfolding dev by (rule scaled_gt)
  next
    case quot
    then have "DBL_OVERFLOW \<le> a" unfolding a_def by (rule not_in_range_ge)
    with scaled_ge [OF a0] DBL_OVERFLOW_large show ?thesis unfolding dev by linarith
  next
    case prod
    from not_in_range_ge [OF prod] a0 have "DBL_OVERFLOW \<le> a * 10000" by simp
    with DBL_OVERFLOW_large show ?thesis unfolding dev by linarith
  qed
qed

lemma no_overflow_in_range:
  assumes "in_range (price - median)" and "in_range (deviation_bps price median)"
  shows "\<not> deviation_overflows price median"
proof
  assume ovf: "deviation_overflows price median"
  define x where "x = price - median"
  define a where "a = \<bar>x / median\<bar>"
  have dev: "deviation_bps price median = a * 10000"
    unfolding a_def x_def by (rule deviation_bps_quotient)
  have a0: "0 \<le> a" unfolding a_def by simp
  from assms(2) have fin: "a * 10000 < DBL_OVERFLOW"
    unfolding dev in_range_def using a0 by simp
  from ovf assms(1) consider
      (quot) "\<not> in_range (x / median)"
    | (prod) "\<not> in_range (a * 10000)"
    unfolding deviation_overflows_def x_def a_def by blast
  then show False
  proof cases
    case quot
    then have "DBL_OVERFLOW \<le> a" unfolding a_def by (rule not_in_range_ge)
    with scaled_ge [OF a0] fin show False by linarith
  next
    case prod
    with assms(2) show False unfolding dev by simp
  qed
qed

text \<open>Within the range of doubles the function returns the deviation itself.\<close>

lemma calculate_deviation_bps_in_range:
  "in_range (price - median) \<Longrightarrow> in_range (deviation_bps price median) \<Longrightarrow>
   calculate_deviation_bps price median = Inr (Finite (deviation_bps price median))"
  using no_overflow_in_range [of price median]
  by (simp add: calculate_deviation_bps_eq float_deviation_def)

lemma float_gt_deviation:
  "float_gt (float_deviation price median) 100 \<longleftrightarrow> 100 < deviation_bps price median"
  using deviation_overflows_large [of price median] by (simp add: float_deviation_def)


lemma phase3_body_eq:
  "phase3_body med p c = Inr (phase3_assign med p c, \<not> is_outlier med p)"
  by (simp add: phase3_body_def phase3_assign_def is_outlier_def calculate_deviation_bps_eq
      float_gt_deviation
      OUTLIER_THRESHOLD_BPS_def Let_def split: option.splits)

lemma phase3_assign_venue [simp]: "c_venue (phase3_assign med p c) = c_venue c"
  by (simp add: phase3_assign_def split: option.splits)

lemma with_first_total:
  assumes "v \<in> c_venue ` set cs" and "\<And>c. body c = Inr (g c, b)"
    and "\<And>c. c_venue (g c) = c_venue c"
  shows "\<exists>cs'. with_first v body cs = Inr (cs', b) \<and> map c_venue cs' = map c_venue cs"
  using assms(1)
proof (induction cs)
  case Nil
  then show ?case by simp
next
  case (Cons c cs)
  show ?case
  proof (cases "c_venue c = v")
    case True
    then show ?thesis by (simp add: assms(2,3))
  next
    case False
    with Cons.prems have "v \<in> c_venue ` set cs" by auto
    from Cons.IH [OF this] False show ?thesis by auto
  qed
qed

lemma phase3_total:
  "fst ` set cands \<subseteq> c_venue ` set cs \<Longrightarrow>
   \<exists>cs'. phase3 med cands (cs, ips, ivs) =
            Inr (cs', ips @ map snd (filter (\<lambda>(v, p). \<not> is_outlier med p) cands),
                 ivs @ map fst (filter (\<lambda>(v, p). \<not> is_outlier med p) cands))
        \<and> map c_venue cs' = map c_venue cs"
proof (induction cands arbitrary: cs ips ivs)
  case Nil
  then show ?case by simp
next
  case (Cons vp cands)
  obtain v p where vp: "vp = (v, p)" by (cases vp)
  from Cons.prems vp have v: "v \<in> c_venue ` set cs" by auto
  from with_first_total [OF v, of "phase3_body med p" "phase3_assign med p"
      "\<not> is_outlier med p"]
  obtain cs1 where cs1:
    "with_first v (phase3_body med p) cs = Inr (cs1, \<not> is_outlier med p)"
    "map c_venue cs1 = map c_venue cs"
    by (auto simp: phase3_body_eq)
  from cs1(2) have "c_venue ` set cs1 = c_venue ` set cs"
    by (metis set_map)
  with Cons.prems have sub: "fst ` set cands \<subseteq> c_venue ` set cs1" by auto
  show ?case
  proof (cases "is_outlier med p")
    case True
    from Cons.IH [OF sub, of ips ivs] True cs1 vp show ?thesis by auto
  next
    case False
    from Cons.IH [OF sub, of "ips @ [p]" "ivs @ [v]"] False cs1 vp show ?thesis by auto
  qed
qed

subsection \<open>The filter in closed form\<close>

lemma cands_filter_prices:
  "map snd (filter (\<lambda>(v, p). \<not> is_outlier med p) (map cand_of S)) =
   map price_of (filter (\<lambda>inp. \<not> is_outlier med (price_of inp)) S)"
  by (induction S) (auto simp: cand_of_def)

lemma map_snd_cand_of: "map snd (map cand_of S) = map price_of S"
  by (simp add: cand_of_def)

lemma init_contribution_venue [simp]: "c_venue (init_contribution now mt inp) = i_venue inp"
  by (simp add: init_contribution_def)

lemma cands_subset:
  "fst ` set (map cand_of (survivors now mt inputs))
     \<subseteq> c_venue ` set (map (init_contribution now mt) inputs)"
  by (auto simp: survivors_def cand_of_def image_iff intro!: bexI)

lemma quorum_simps:
  "min_quorum get_quorum_config = 2" "preferred_quorum get_quorum_config = 3"
  by (simp_all add: get_quorum_config_def CURRENT_QUORUM_POLICY_def)

lemma filter_outliers_of_phase3:
  assumes "phase3 (reference_median now mt inputs) (map cand_of (survivors now mt inputs))
             (map (init_contribution now mt) inputs, [], []) = Inr (cs, ips, ivs)"
  shows "filter_outliers inputs now mt = Inr (result_of inputs now mt cs)"
proof -
  let ?S = "survivors now mt inputs"
  let ?med = "reference_median now mt inputs"
  from phase3_total [OF cands_subset [of now mt inputs], where med = ?med and ips = "[]"
      and ivs = "[]"] assms
  have ips: "ips = map snd (filter (\<lambda>(v, p). \<not> is_outlier ?med p) (map cand_of ?S))"
    by auto
  then have ips': "ips = map price_of (final_survivors now mt inputs)"
    by (simp only: cands_filter_prices final_survivors_def)
  have med: "calculate_median (map snd (map cand_of ?S)) = ?med"
    unfolding reference_median_def map_snd_cand_of ..
  show ?thesis
    unfolding filter_outliers_def phase1_eq Let_def prod.case med assms sum.case
      quorum_simps result_of_def
    by (simp add: ips')
qed

lemma filter_outliers_char:
  "\<exists>cs. filter_outliers inputs now mt = Inr (result_of inputs now mt cs)
        \<and> map c_venue cs = map i_venue inputs"
proof -
  from phase3_total [OF cands_subset [of now mt inputs],
      where med = "reference_median now mt inputs" and ips = "[]" and ivs = "[]"]
  obtain cs ips ivs where
    "phase3 (reference_median now mt inputs) (map cand_of (survivors now mt inputs))
       (map (init_contribution now mt) inputs, [], []) = Inr (cs, ips, ivs)"
    "map c_venue cs = map c_venue (map (init_contribution now mt) inputs)"
    by blast
  then show ?thesis
    using filter_outliers_of_phase3 [of now mt inputs cs ips ivs] by (auto simp: comp_def)
qed

subsection \<open>Distinct venues\<close>

lemma with_first_distinct:
  assumes "\<And>c. body c = Inr (g c, b)"
  shows "distinct (map c_venue cs) \<Longrightarrow> v \<in> c_venue ` set cs \<Longrightarrow>
   with_first v body cs = Inr (map (\<lambda>c. if c_venue c = v then g c else c) cs, b)"
proof (induction cs)
  case Nil
  then show ?case by simp
next
  case (Cons c cs)
  show ?case
  proof (cases "c_venue c = v")
    case True
    with Cons.prems(1) have "\<forall>c' \<in> set cs. c_venue c' \<noteq> v" by (auto simp: image_iff)
    then have "map (\<lambda>c. if c_venue c = v then g c else c) cs = cs"
      by (simp add: map_idI)
    with True show ?thesis by (simp add: assms)
  next
    case False
    with Cons show ?thesis by auto
  qed
qed

lemma phase3_distinct:
  "distinct (map c_venue cs) \<Longrightarrow> distinct (map fst cands) \<Longrightarrow>
   fst ` set cands \<subseteq> c_venue ` set cs \<Longrightarrow>
   \<exists>ips' ivs'. phase3 med cands (cs, ips, ivs) = Inr (map (apply_cands med cands) cs, ips', ivs')"
proof (induction cands arbitrary: cs ips ivs)
  case Nil
  then show ?case by (simp add: apply_cands_def)
next
  case (Cons vp cands)
  obtain v p where vp: "vp = (v, p)" by (cases vp)
  let ?f = "phase3_assign med p"
  let ?cs1 = "map (\<lambda>c. if c_venue c = v then ?f c else c) cs"
  from Cons.prems vp have v: "v \<in> c_venue ` set cs" by auto
  have upd: "with_first v (phase3_body med p) cs = Inr (?cs1, \<not> is_outlier med p)"
    by (rule with_first_distinct [OF phase3_body_eq Cons.prems(1) v])
  have venues: "map c_venue ?cs1 = map c_venue cs" by (simp add: comp_def)
  from Cons.prems(1) have d1: "distinct (map c_venue ?cs1)" unfolding venues .
  from venues have "c_venue ` set ?cs1 = c_venue ` set cs" by (metis set_map)
  with Cons.prems(3) have sub: "fst ` set cands \<subseteq> c_venue ` set ?cs1" by auto
  from Cons.prems(2) vp have d2: "distinct (map fst cands)" and vnot: "v \<notin> fst ` set cands"
    by auto
  have eq: "map (apply_cands med cands) ?cs1 = map (apply_cands med (vp # cands)) cs"
  proof (rule map_ext [THEN trans [OF map_map]], rule impI)
    fix c assume "c \<in> set cs"
    from vnot have "map_of cands v = None" by (simp add: map_of_eq_None_iff)
    then show "(apply_cands med cands \<circ> (\<lambda>c. if c_venue c = v then ?f c else c)) c
        = apply_cands med (vp # cands) c"
      by (simp add: apply_cands_def vp)
  qed
  let ?ips1 = "if \<not> is_outlier med p then ips @ [p] else ips"
  let ?ivs1 = "if \<not> is_outlier med p then ivs @ [v] else ivs"
  have step: "phase3 med (vp # cands) (cs, ips, ivs) = phase3 med cands (?cs1, ?ips1, ?ivs1)"
    unfolding vp by (simp add: upd del: map_map)
  from Cons.IH [OF d1 d2 sub, of ?ips1 ?ivs1] obtain ips' ivs' where
    "phase3 med cands (?cs1, ?ips1, ?ivs1) = Inr (map (apply_cands med cands) ?cs1, ips', ivs')"
    by blast
  then show ?case unfolding step eq by blast
qed

lemma map_of_cands_distinct:
  assumes "distinct (map i_venue inputs)" and "inp \<in> set inputs"
  shows "map_of (map cand_of (survivors now mt inputs)) (i_venue inp) =
     (if early_exclusion now mt inp = None then Some (price_of inp) else None)"
proof (cases "early_exclusion now mt inp = None")
  case True
  with assms(2) have "cand_of inp \<in> set (map cand_of (survivors now mt inputs))"
    by (simp add: survivors_def)
  moreover have "distinct (map fst (map cand_of (survivors now mt inputs)))"
    using assms(1) by (simp add: survivors_def cand_of_def comp_def distinct_map_filter)
  ultimately show ?thesis using True
    by (simp add: cand_of_def del: map_map)
next
  case False
  have "i_venue inp \<notin> fst ` set (map cand_of (survivors now mt inputs))"
  proof
    assume "i_venue inp \<in> fst ` set (map cand_of (survivors now mt inputs))"
    then obtain inp' where inp': "inp' \<in> set inputs" "early_exclusion now mt inp' = None"
      "i_venue inp' = i_venue inp"
      by (auto simp: survivors_def cand_of_def)
    from assms(1) have "inj_on i_venue (set inputs)" by (simp add: distinct_map)
    with inp' assms(2) have "inp' = inp" by (auto dest: inj_onD)
    with inp'(2) False show False by simp
  qed
  then have "map_of (map cand_of (survivors now mt inputs)) (i_venue inp) = None"
    by (simp add: map_of_eq_None_iff del: map_map)
  with False show ?thesis by simp
qed

lemma filter_outliers_distinct:
  assumes "distinct (map i_venue inputs)"
  shows "filter_outliers inputs now mt =
     Inr (result_of inputs now mt
            (map (final_contribution (reference_median now mt inputs) now mt) inputs))"
proof -
  let ?med = "reference_median now mt inputs"
  let ?cands = "map cand_of (survivors now mt inputs)"
  let ?cs = "map (init_contribution now mt) inputs"
  have d1: "distinct (map c_venue ?cs)" using assms by (simp add: comp_def)
  have d2: "distinct (map fst ?cands)"
    using assms by (simp add: survivors_def cand_of_def comp_def distinct_map_filter)
  from phase3_distinct [OF d1 d2 cands_subset, of ?med "[]" "[]"]
  obtain ips ivs where
    p3: "phase3 ?med ?cands (?cs, [], []) = Inr (map (apply_cands ?med ?cands) ?cs, ips, ivs)"
    by blast
  have "map (apply_cands ?med ?cands) ?cs =
      map (apply_cands ?med ?cands \<circ> init_contribution now mt) inputs"
    by simp
  also have "\<dots> = map (final_contribution ?med now mt) inputs"
    by (rule map_cong [OF refl])
      (simp add: apply_cands_def final_contribution_def map_of_cands_distinct [OF assms]
        del: map_map)
  finally have "map (apply_cands ?med ?cands) ?cs =
      map (final_contribution ?med now mt) inputs" .
  with p3 have "phase3 ?med ?cands (?cs, [], []) =
      Inr (map (final_contribution ?med now mt) inputs, ips, ivs)"
    by (simp only:)
  then show ?thesis by (rule filter_outliers_of_phase3)
qed

section \<open>Outlier filter: quorum, gap and degraded flags\<close>

text \<open>The definitions to unfold when the filter is evaluated on concrete inputs.\<close>

lemmas filter_eval =
  filter_outliers_def phase1_def phase1_step_def get_stale_threshold_def
  calculate_median_def statistics_median_def phase3_body_def calculate_deviation_bps_in_range
  in_range_small deviation_bps_def derive_degraded_reason_def
  get_quorum_config_def CURRENT_QUORUM_POLICY_def
  OUTLIER_THRESHOLD_BPS_def example_input_def example_contribution_def Let_def

lemma calculate_median_Some: "xs \<noteq> [] \<Longrightarrow> \<exists>m. calculate_median xs = Some m"
  by (simp add: calculate_median_def)

text \<open>
  C3. Every call of \<^verbatim>\<open>filter_outliers\<close> returns a result. With \<open>included\<close> the number
  of venues that survive all exclusions (the result's \<open>included_count\<close>), and the
  frozen quorum policy (\<open>min_quorum = 2\<close>, \<open>preferred_quorum = 3\<close>): \<open>is_gap\<close> holds
  exactly when \<open>included < 2\<close>, the composite price is absent exactly when \<open>is_gap\<close>
  holds, and \<open>degraded\<close> holds exactly when \<open>included < 3\<close> or \<open>is_gap\<close> holds.
\<close>

theorem quorum_and_gap_flags:
  "\<exists>r. filter_outliers inputs now market_type = Inr r
     \<and> r_included_count r = int (length (final_survivors now market_type inputs))
     \<and> min_quorum get_quorum_config = 2 \<and> preferred_quorum get_quorum_config = 3
     \<and> (r_is_gap r \<longleftrightarrow> r_included_count r < 2)
     \<and> (r_price r = None \<longleftrightarrow> r_is_gap r)
     \<and> (r_degraded r \<longleftrightarrow> r_included_count r < 3 \<or> r_is_gap r)"
proof -
  let ?F = "final_survivors now market_type inputs"
  from filter_outliers_char [of inputs now market_type] obtain cs where
    r: "filter_outliers inputs now market_type = Inr (result_of inputs now market_type cs)"
    by blast
  have "r_price (result_of inputs now market_type cs) = None \<longleftrightarrow> length ?F < 2"
  proof (cases "length ?F < 2")
    case True
    then show ?thesis by (simp add: result_of_def Let_def)
  next
    case False
    then have "map price_of ?F \<noteq> []" by auto
    from calculate_median_Some [OF this] False show ?thesis
      by (auto simp: result_of_def Let_def)
  qed
  with r show ?thesis
    by (auto simp: result_of_def Let_def quorum_simps)
qed

theorem quorum_and_gap_flags_witness:
  "filter_outliers [example_input BINANCE 100 1000 True] 2000 SPOT =
     Inr \<lparr>r_price = None,
          r_venues = [example_contribution BINANCE 100 True None (Some 0)],
          r_included_count = 1, r_total_count = 1, r_degraded = True,
          r_degraded_reason = SINGLE_SOURCE, r_is_gap = True\<rparr>
   \<and> final_survivors 2000 SPOT [example_input BINANCE 100 1000 True]
       = [example_input BINANCE 100 1000 True]"
  using quorum_and_gap_flags [of "[example_input BINANCE 100 1000 True]" 2000 SPOT]
  by (simp add: filter_eval final_survivors_def survivors_def early_exclusion_def
      reference_median_def is_outlier_def deviation_bps_def price_of_def)

section \<open>Outlier filter: the deviation is total, and a zero median excludes nobody\<close>







text \<open>
  The claim as stated fails: the value is not always finite. The price \<open>10^308\<close> and
  the median \<open>10^-308\<close> are both within the range of doubles, their quotient is not, and
  the function returns positive infinity.
\<close>

theorem deviation_total_and_zero_median_counterexample:
  "in_range (10 ^ 308) \<and> in_range (1 / 10 ^ 308)
   \<and> calculate_deviation_bps (10 ^ 308) (1 / 10 ^ 308) = Inr PosInf"
  by (simp add: calculate_deviation_bps_def float_result_def in_range_def DBL_OVERFLOW_def)

section \<open>Outlier filter: exclusion order and the two medians\<close>

lemma survivors_idem:
  "survivors now mt (survivors now mt inputs) = survivors now mt inputs"
  by (simp add: survivors_def)

lemma reference_median_survivors:
  "reference_median now mt (survivors now mt inputs) = reference_median now mt inputs"
  by (simp only: reference_median_def survivors_idem)

lemma final_survivors_survivors:
  "final_survivors now mt (survivors now mt inputs) = final_survivors now mt inputs"
  by (simp only: final_survivors_def survivors_idem reference_median_survivors)

lemma filter_outliers_price:
  "\<exists>r. filter_outliers inputs now mt = Inr r
      \<and> r_price r = (if length (final_survivors now mt inputs) < 2 then None
                     else calculate_median (map price_of (final_survivors now mt inputs)))"
  using filter_outliers_char [of inputs now mt] by (auto simp: result_of_def Let_def)

lemma final_contribution_props:
  "c_venue (final_contribution med now mt inp) = i_venue inp
   \<and> c_price (final_contribution med now mt inp) = i_price inp
   \<and> (case early_exclusion now mt inp of
         Some reason \<Rightarrow>
           c_exclude_reason (final_contribution med now mt inp) = Some reason
           \<and> \<not> c_included (final_contribution med now mt inp)
       | None \<Rightarrow>
           (c_exclude_reason (final_contribution med now mt inp) = Some OUTLIER
              \<longleftrightarrow> is_outlier med (price_of inp))
           \<and> (c_exclude_reason (final_contribution med now mt inp) = None
              \<longleftrightarrow> \<not> is_outlier med (price_of inp))
           \<and> (c_included (final_contribution med now mt inp)
              \<longleftrightarrow> \<not> is_outlier med (price_of inp)))"
  by (cases "early_exclusion now mt inp"; cases med)
    (simp_all add: final_contribution_def init_contribution_def phase3_assign_def
      is_outlier_def)

text \<open>
  C2 (as amended). For every list of venue price inputs with pairwise distinct venues,
  every time \<open>now\<close> and every market type, \<^verbatim>\<open>filter_outliers\<close> returns a result whose
  contribution records stand in input order and satisfy: a venue that is disconnected,
  has no data or is stale carries that exclude reason and is not included; the reference
  median is the median of the prices of the remaining survivors only; a survivor carries
  the reason \<open>OUTLIER\<close> exactly when its deviation \<open>\<bar>price - median\<bar> / \<bar>median\<bar> * 10000\<close> from
  that median exceeds 100 bps, and is included with no reason otherwise. The composite
  price is the median of the survivors that are no outliers when at least two of them
  remain, and absent otherwise. Running the filter on the survivors alone gives the same
  composite price: the price of a disconnected, data-less or stale venue influences
  neither median.
\<close>

theorem exclusion_order_and_medians:
  assumes "distinct (map i_venue inputs)"
  shows "\<exists>r. filter_outliers inputs now market_type = Inr r
     \<and> list_all2
         (\<lambda>inp c. c_venue c = i_venue inp \<and> c_price c = i_price inp
            \<and> (case early_exclusion now market_type inp of
                  Some reason \<Rightarrow> c_exclude_reason c = Some reason \<and> \<not> c_included c
                | None \<Rightarrow>
                    (c_exclude_reason c = Some OUTLIER
                       \<longleftrightarrow> is_outlier (calculate_median (map price_of
                               (survivors now market_type inputs))) (price_of inp))
                    \<and> (c_exclude_reason c = None
                       \<longleftrightarrow> \<not> is_outlier (calculate_median (map price_of
                               (survivors now market_type inputs))) (price_of inp))
                    \<and> (c_included c
                       \<longleftrightarrow> \<not> is_outlier (calculate_median (map price_of
                               (survivors now market_type inputs))) (price_of inp))))
         inputs (r_venues r)
     \<and> r_price r =
         (if length (final_survivors now market_type inputs) < 2 then None
          else calculate_median (map price_of (final_survivors now market_type inputs)))
     \<and> (\<exists>r'. filter_outliers (survivors now market_type inputs) now market_type = Inr r'
             \<and> r_price r' = r_price r)"
proof -
  let ?med = "reference_median now market_type inputs"
  let ?r = "result_of inputs now market_type
              (map (final_contribution ?med now market_type) inputs)"
  have r: "filter_outliers inputs now market_type = Inr ?r"
    by (rule filter_outliers_distinct [OF assms])
  have venues: "r_venues ?r = map (final_contribution ?med now market_type) inputs"
    by (simp add: result_of_def Let_def)
  have price: "r_price ?r =
         (if length (final_survivors now market_type inputs) < 2 then None
          else calculate_median (map price_of (final_survivors now market_type inputs)))"
    by (simp add: result_of_def Let_def)
  from filter_outliers_price [of "survivors now market_type inputs" now market_type]
  obtain r' where r':
    "filter_outliers (survivors now market_type inputs) now market_type = Inr r'"
    "r_price r' = r_price ?r"
    unfolding final_survivors_survivors price by blast
  have recs: "list_all2
         (\<lambda>inp c. c_venue c = i_venue inp \<and> c_price c = i_price inp
            \<and> (case early_exclusion now market_type inp of
                  Some reason \<Rightarrow> c_exclude_reason c = Some reason \<and> \<not> c_included c
                | None \<Rightarrow>
                    (c_exclude_reason c = Some OUTLIER \<longleftrightarrow> is_outlier ?med (price_of inp))
                    \<and> (c_exclude_reason c = None \<longleftrightarrow> \<not> is_outlier ?med (price_of inp))
                    \<and> (c_included c \<longleftrightarrow> \<not> is_outlier ?med (price_of inp))))
         inputs (r_venues ?r)"
    unfolding venues list_all2_map2
    by (rule list_all2_refl) (rule final_contribution_props)
  show ?thesis
    using r recs price r' unfolding reference_median_def by blast
qed

theorem exclusion_order_and_medians_witness:
  "filter_outliers
     [example_input BINANCE 95100 5000 True, example_input COINBASE 94100 19000 True,
      example_input OKX 94100 19000 True, example_input KRAKEN 95100 19000 True] 20000 SPOT =
     Inr \<lparr>r_price = Some 94100,
          r_venues = [example_contribution BINANCE 95100 False (Some STALE) None,
                      example_contribution COINBASE 94100 True None (Some 0),
                      example_contribution OKX 94100 True None (Some 0),
                      example_contribution KRAKEN 95100 False (Some OUTLIER)
                        (Some (100000 / 941))],
          r_included_count = 2, r_total_count = 4, r_degraded = True,
          r_degraded_reason = VENUE_STALE, r_is_gap = False\<rparr>
   \<and> survivors 20000 SPOT
       [example_input BINANCE 95100 5000 True, example_input COINBASE 94100 19000 True,
        example_input OKX 94100 19000 True, example_input KRAKEN 95100 19000 True] =
       [example_input COINBASE 94100 19000 True, example_input OKX 94100 19000 True,
        example_input KRAKEN 95100 19000 True]"
  using exclusion_order_and_medians
    [of "[example_input BINANCE 95100 5000 True, example_input COINBASE 94100 19000 True,
          example_input OKX 94100 19000 True, example_input KRAKEN 95100 19000 True]"
        20000 SPOT]
  by (simp add: filter_eval survivors_def early_exclusion_def)

text \<open>
  The claim as stated fails in three ways. With a single survivor the composite price is
  absent although the median of the post-outlier survivors is 100. With two inputs of
  one venue the assignments of phase 3 both land on the first record of that venue: the
  Binance input at the median price 100 (deviation 0) ends with the reason \<open>OUTLIER\<close>
  and the Binance input at 200 with none. With negative prices the code takes the
  absolute value of the quotient: the OKX price -102 is an outlier against the median
  -100 (200 bps), while \<open>\<bar>price - median\<bar> / median * 10000\<close> is -200.
\<close>

theorem exclusion_order_counterexample:
  "filter_outliers [example_input BINANCE 100 1000 True] 2000 SPOT =
     Inr \<lparr>r_price = None,
          r_venues = [example_contribution BINANCE 100 True None (Some 0)],
          r_included_count = 1, r_total_count = 1, r_degraded = True,
          r_degraded_reason = SINGLE_SOURCE, r_is_gap = True\<rparr>
   \<and> calculate_median (map price_of
         (final_survivors 2000 SPOT [example_input BINANCE 100 1000 True])) = Some 100
   \<and> filter_outliers
        [example_input BINANCE 100 1000 True, example_input BINANCE 200 1000 True,
         example_input COINBASE 100 1000 True, example_input OKX 100 1000 True] 2000 SPOT =
      Inr \<lparr>r_price = Some 100,
           r_venues = [example_contribution BINANCE 100 False (Some OUTLIER) (Some 10000),
                       example_contribution BINANCE 200 False None None,
                       example_contribution COINBASE 100 True None (Some 0),
                       example_contribution OKX 100 True None (Some 0)],
           r_included_count = 3, r_total_count = 4, r_degraded = False,
           r_degraded_reason = NONE, r_is_gap = False\<rparr>
   \<and> calculate_deviation_bps 100 100 = Inr (Finite 0)
   \<and> filter_outliers
        [example_input BINANCE (- 100) 1000 True, example_input COINBASE (- 100) 1000 True,
         example_input OKX (- 102) 1000 True] 2000 SPOT =
      Inr \<lparr>r_price = Some (- 100),
           r_venues = [example_contribution BINANCE (- 100) True None (Some 0),
                       example_contribution COINBASE (- 100) True None (Some 0),
                       example_contribution OKX (- 102) False (Some OUTLIER) (Some 200)],
           r_included_count = 2, r_total_count = 3, r_degraded = True,
           r_degraded_reason = VENUE_OUTLIER, r_is_gap = False\<rparr>
   \<and> \<bar>- 102 - (- 100)\<bar> / (- 100) * 10000 = (- 200 :: real)"
  by (simp add: filter_eval final_survivors_def survivors_def early_exclusion_def
      reference_median_def is_outlier_def deviation_bps_def price_of_def)

section \<open>Outlier filter: invariance under permutation\<close>










section \<open>Composite aggregator: the realtime composite build\<close>

lemma sum_step_eq:
  "sum_step S (a, b, c, d, e) item =
     (a + flow_of S b_volume item, b + flow_of S b_buy_volume item,
      c + flow_of S b_sell_volume item, d + flow_of S b_buy_count item,
      e + flow_of S b_sell_count item)"
proof -
  obtain v ob where item: "item = (v, ob)" by (cases item)
  show ?thesis
    by (cases ob) (simp_all add: item sum_step_def flow_of_def)
qed

lemma sum_step_foldl:
  "foldl (sum_step S) (a, b, c, d, e) vbs =
     (a + sum_list (map (flow_of S b_volume) vbs),
      b + sum_list (map (flow_of S b_buy_volume) vbs),
      c + sum_list (map (flow_of S b_sell_volume) vbs),
      d + sum_list (map (flow_of S b_buy_count) vbs),
      e + sum_list (map (flow_of S b_sell_count) vbs))"
  by (induction vbs arbitrary: a b c d e) (simp_all add: sum_step_eq add.assoc)



lemma result_of_venues: "r_venues (result_of inputs now mt cs) = cs"
  by (simp add: result_of_def Let_def)

lemma build_composite_eq:
  assumes "filter_outliers (build_inputs venue_bars (state_of venue_state) b_open)
             (close_time_ms bar_time) mt = Inr ro"
    and "filter_outliers (build_inputs venue_bars (state_of venue_state) b_high)
             (close_time_ms bar_time) mt = Inr rh"
    and "filter_outliers (build_inputs venue_bars (state_of venue_state) b_low)
             (close_time_ms bar_time) mt = Inr rl"
    and "filter_outliers (build_inputs venue_bars (state_of venue_state) b_close)
             (close_time_ms bar_time) mt = Inr rc"
  shows "build_composite asset mt bar_time venue_bars venue_state =
     Inr (build_composite_bar bar_time ro rh rl rc
            (sum_list (map (flow_of (c_venue ` set (filter c_included (r_venues rc))) b_volume)
               venue_bars))
            asset mt
            (sum_list (map (flow_of (c_venue ` set (filter c_included (r_venues rc)))
               b_buy_volume) venue_bars))
            (sum_list (map (flow_of (c_venue ` set (filter c_included (r_venues rc)))
               b_sell_volume) venue_bars))
            (sum_list (map (flow_of (c_venue ` set (filter c_included (r_venues rc)))
               b_buy_count) venue_bars))
            (sum_list (map (flow_of (c_venue ` set (filter c_included (r_venues rc)))
               b_sell_count) venue_bars)),
          rc)"
  using assms
  unfolding build_composite_def Let_def close_time_ms_def state_of_def BAR_INTERVAL_SECONDS_def
  by (simp add: sum_step_foldl)

lemma build_composite_char:
  "\<exists>co ch cl cc.
     build_composite asset mt bar_time venue_bars venue_state =
       Inr (build_composite_bar bar_time
              (result_of (build_inputs venue_bars (state_of venue_state) b_open)
                 (close_time_ms bar_time) mt co)
              (result_of (build_inputs venue_bars (state_of venue_state) b_high)
                 (close_time_ms bar_time) mt ch)
              (result_of (build_inputs venue_bars (state_of venue_state) b_low)
                 (close_time_ms bar_time) mt cl)
              (result_of (build_inputs venue_bars (state_of venue_state) b_close)
                 (close_time_ms bar_time) mt cc)
              (sum_list (map (flow_of (c_venue ` set (filter c_included cc)) b_volume)
                 venue_bars))
              asset mt
              (sum_list (map (flow_of (c_venue ` set (filter c_included cc)) b_buy_volume)
                 venue_bars))
              (sum_list (map (flow_of (c_venue ` set (filter c_included cc)) b_sell_volume)
                 venue_bars))
              (sum_list (map (flow_of (c_venue ` set (filter c_included cc)) b_buy_count)
                 venue_bars))
              (sum_list (map (flow_of (c_venue ` set (filter c_included cc)) b_sell_count)
                 venue_bars)),
            result_of (build_inputs venue_bars (state_of venue_state) b_close)
              (close_time_ms bar_time) mt cc)
     \<and> filter_outliers (build_inputs venue_bars (state_of venue_state) b_close)
           (close_time_ms bar_time) mt =
         Inr (result_of (build_inputs venue_bars (state_of venue_state) b_close)
                (close_time_ms bar_time) mt cc)"
proof -
  let ?now = "close_time_ms bar_time"
  let ?inp = "build_inputs venue_bars (state_of venue_state)"
  from filter_outliers_char [of "?inp b_open" ?now mt] obtain co where
    o: "filter_outliers (?inp b_open) ?now mt = Inr (result_of (?inp b_open) ?now mt co)"
    by blast
  from filter_outliers_char [of "?inp b_high" ?now mt] obtain ch where
    h: "filter_outliers (?inp b_high) ?now mt = Inr (result_of (?inp b_high) ?now mt ch)"
    by blast
  from filter_outliers_char [of "?inp b_low" ?now mt] obtain cl where
    l: "filter_outliers (?inp b_low) ?now mt = Inr (result_of (?inp b_low) ?now mt cl)"
    by blast
  from filter_outliers_char [of "?inp b_close" ?now mt] obtain cc where
    c: "filter_outliers (?inp b_close) ?now mt = Inr (result_of (?inp b_close) ?now mt cc)"
    by blast
  from build_composite_eq [OF o h l c, of asset] c show ?thesis
    unfolding result_of_venues by blast
qed


lemmas composite_eval =
  build_composite_def build_inputs_def build_composite_bar_def sum_step_def
  BAR_INTERVAL_SECONDS_def example_bar_def example_state_def



text \<open>
  C5 (as amended). In every realtime composite build, \<open>is_gap\<close>, \<open>included_venues\<close>
  and \<open>excluded_venues\<close> of the composite bar are derived from the filter result of the
  close alone. When the bar is no gap, its volume, buy\_volume, sell\_volume, buy\_count
  and sell\_count are the sums of those fields over exactly the venue bars whose venue
  the close result marks included: a venue that is excluded for the close contributes
  nothing to any of them, whatever the open, high and low results say. When the bar is a
  gap, all five are zero.
\<close>

theorem composite_flow_from_close:
  "\<exists>cb close_result.
     build_composite asset market_type bar_time venue_bars venue_state
       = Inr (cb, close_result)
     \<and> filter_outliers (build_inputs venue_bars (state_of venue_state) b_close)
           (close_time_ms bar_time) market_type = Inr close_result
     \<and> cb_is_gap cb = r_is_gap close_result
     \<and> cb_included_venues cb = map c_venue (filter c_included (r_venues close_result))
     \<and> cb_excluded_venues cb =
         concat (map (\<lambda>c. case c_exclude_reason c of
                             None \<Rightarrow> []
                           | Some reason \<Rightarrow> [\<lparr>ev_venue = c_venue c, ev_reason = reason\<rparr>])
                     (r_venues close_result))
     \<and> (if cb_is_gap cb
        then cb_volume cb = 0 \<and> cb_buy_volume cb = 0 \<and> cb_sell_volume cb = 0
           \<and> cb_buy_count cb = 0 \<and> cb_sell_count cb = 0
        else cb_volume cb =
               sum_list (map (flow_of (set (cb_included_venues cb)) b_volume) venue_bars)
           \<and> cb_buy_volume cb =
               sum_list (map (flow_of (set (cb_included_venues cb)) b_buy_volume) venue_bars)
           \<and> cb_sell_volume cb =
               sum_list (map (flow_of (set (cb_included_venues cb)) b_sell_volume) venue_bars)
           \<and> cb_buy_count cb =
               sum_list (map (flow_of (set (cb_included_venues cb)) b_buy_count) venue_bars)
           \<and> cb_sell_count cb =
               sum_list (map (flow_of (set (cb_included_venues cb)) b_sell_count) venue_bars))"
proof -
  let ?rc = "\<lambda>cc. result_of (build_inputs venue_bars (state_of venue_state) b_close)
                  (close_time_ms bar_time) market_type cc"
  from build_composite_char [of asset market_type bar_time venue_bars venue_state]
  obtain co ch cl cc cb where
    bc: "build_composite asset market_type bar_time venue_bars venue_state = Inr (cb, ?rc cc)"
    and fo: "filter_outliers (build_inputs venue_bars (state_of venue_state) b_close)
           (close_time_ms bar_time) market_type = Inr (?rc cc)"
    and cb: "cb = build_composite_bar bar_time
              (result_of (build_inputs venue_bars (state_of venue_state) b_open)
                 (close_time_ms bar_time) market_type co)
              (result_of (build_inputs venue_bars (state_of venue_state) b_high)
                 (close_time_ms bar_time) market_type ch)
              (result_of (build_inputs venue_bars (state_of venue_state) b_low)
                 (close_time_ms bar_time) market_type cl)
              (?rc cc)
              (sum_list (map (flow_of (c_venue ` set (filter c_included cc)) b_volume)
                 venue_bars))
              asset market_type
              (sum_list (map (flow_of (c_venue ` set (filter c_included cc)) b_buy_volume)
                 venue_bars))
              (sum_list (map (flow_of (c_venue ` set (filter c_included cc)) b_sell_volume)
                 venue_bars))
              (sum_list (map (flow_of (c_venue ` set (filter c_included cc)) b_buy_count)
                 venue_bars))
              (sum_list (map (flow_of (c_venue ` set (filter c_included cc)) b_sell_count)
                 venue_bars))"
    by blast
  have gap: "cb_is_gap cb = r_is_gap (?rc cc)"
    by (simp add: cb build_composite_bar_def Let_def)
  have inc: "cb_included_venues cb = map c_venue (filter c_included (r_venues (?rc cc)))"
    by (simp add: cb build_composite_bar_def Let_def)
  have exc: "cb_excluded_venues cb =
         concat (map (\<lambda>c. case c_exclude_reason c of
                             None \<Rightarrow> []
                           | Some reason \<Rightarrow> [\<lparr>ev_venue = c_venue c, ev_reason = reason\<rparr>])
                     (r_venues (?rc cc)))"
    by (simp add: cb build_composite_bar_def Let_def)
  have set: "set (cb_included_venues cb) = c_venue ` set (filter c_included cc)"
    unfolding inc result_of_venues by simp
  have flows: "if cb_is_gap cb
        then cb_volume cb = 0 \<and> cb_buy_volume cb = 0 \<and> cb_sell_volume cb = 0
           \<and> cb_buy_count cb = 0 \<and> cb_sell_count cb = 0
        else cb_volume cb =
               sum_list (map (flow_of (set (cb_included_venues cb)) b_volume) venue_bars)
           \<and> cb_buy_volume cb =
               sum_list (map (flow_of (set (cb_included_venues cb)) b_buy_volume) venue_bars)
           \<and> cb_sell_volume cb =
               sum_list (map (flow_of (set (cb_included_venues cb)) b_sell_volume) venue_bars)
           \<and> cb_buy_count cb =
               sum_list (map (flow_of (set (cb_included_venues cb)) b_buy_count) venue_bars)
           \<and> cb_sell_count cb =
               sum_list (map (flow_of (set (cb_included_venues cb)) b_sell_count) venue_bars)"
    unfolding set by (simp add: cb build_composite_bar_def Let_def)
  from bc fo gap inc exc flows show ?thesis by blast
qed

theorem composite_flow_from_close_witness:
  "build_composite BTC SPOT 0
     [(BINANCE, Some (example_bar BINANCE 100 100 100 100 5)),
      (COINBASE, Some (example_bar COINBASE 100 100 100 100 7)),
      (OKX, Some (example_bar OKX 100 200 100 200 11)),
      (KRAKEN, None)] (Some example_state) =
   Inr (\<lparr>cb_time = 0, cb_open = Some 100, cb_high = Some 100, cb_low = Some 100,
         cb_close = Some 100, cb_volume = 12, cb_buy_volume = 12, cb_sell_volume = 0,
         cb_buy_count = 6, cb_sell_count = 0, cb_degraded = True, cb_is_gap = False,
         cb_is_backfilled = False, cb_included_venues = [BINANCE, COINBASE],
         cb_excluded_venues = [\<lparr>ev_venue = OKX, ev_reason = OUTLIER\<rparr>,
                               \<lparr>ev_venue = KRAKEN, ev_reason = NO_DATA\<rparr>],
         cb_asset = Some BTC, cb_market_type = Some SPOT\<rparr>,
        \<lparr>r_price = Some 100,
         r_venues = [example_contribution BINANCE 100 True None (Some 0),
                     example_contribution COINBASE 100 True None (Some 0),
                     example_contribution OKX 200 False (Some OUTLIER) (Some 10000),
                     \<lparr>c_venue = KRAKEN, c_price = None, c_included = False,
                      c_exclude_reason = Some NO_DATA, c_deviation_bps = None\<rparr>],
         r_included_count = 2, r_total_count = 4, r_degraded = True,
         r_degraded_reason = VENUE_OUTLIER, r_is_gap = False\<rparr>)
   \<and> sum_list (map (flow_of {BINANCE, COINBASE} b_volume)
        [(BINANCE, Some (example_bar BINANCE 100 100 100 100 5)),
         (COINBASE, Some (example_bar COINBASE 100 100 100 100 7)),
         (OKX, Some (example_bar OKX 100 200 100 200 11)),
         (KRAKEN, None)]) = 12"
  using composite_flow_from_close
    [of BTC SPOT 0 "[(BINANCE, Some (example_bar BINANCE 100 100 100 100 5)),
      (COINBASE, Some (example_bar COINBASE 100 100 100 100 7)),
      (OKX, Some (example_bar OKX 100 200 100 200 11)),
      (KRAKEN, None)]" "Some example_state"]
  by (simp add: composite_eval filter_eval flow_of_def)

text \<open>
  The claim as stated fails on a gap: with a single connected, fresh venue the close
  result marks that venue included (and the bar lists it in \<open>included_venues\<close>), the sum
  of the volume over the included venues is 5, and the composite volume is 0.
\<close>

theorem composite_flow_from_close_counterexample:
  "build_composite BTC SPOT 0
     [(BINANCE, Some (example_bar BINANCE 100 100 100 100 5))] (Some example_state) =
   Inr (\<lparr>cb_time = 0, cb_open = None, cb_high = None, cb_low = None, cb_close = None,
         cb_volume = 0, cb_buy_volume = 0, cb_sell_volume = 0, cb_buy_count = 0,
         cb_sell_count = 0, cb_degraded = True, cb_is_gap = True,
         cb_is_backfilled = False, cb_included_venues = [BINANCE],
         cb_excluded_venues = [], cb_asset = Some BTC, cb_market_type = Some SPOT\<rparr>,
        \<lparr>r_price = None,
         r_venues = [example_contribution BINANCE 100 True None (Some 0)],
         r_included_count = 1, r_total_count = 1, r_degraded = True,
         r_degraded_reason = SINGLE_SOURCE, r_is_gap = True\<rparr>)
   \<and> sum_list (map (flow_of {BINANCE} b_volume)
        [(BINANCE, Some (example_bar BINANCE 100 100 100 100 5))]) = 5"
  by (simp add: composite_eval filter_eval flow_of_def)

section \<open>Backfill service: the composite of a repaired minute\<close>

lemma backfill_median_sort:
  "xs \<noteq> [] \<Longrightarrow> Some (backfill_median (sort xs)) = calculate_median xs"
  by (auto simp: backfill_median_def calculate_median_def statistics_median_def Let_def)

lemma build_composite_from_venue_bars_ohlc:
  assumes "venue_bars \<noteq> []"
  shows "\<exists>cb. build_composite_from_venue_bars venue_bars bar_time asset mt = Some cb
     \<and> cb_open cb = calculate_median (map (b_open \<circ> snd) venue_bars)
     \<and> cb_high cb = calculate_median (map (b_high \<circ> snd) venue_bars)
     \<and> cb_low cb = calculate_median (map (b_low \<circ> snd) venue_bars)
     \<and> cb_close cb = calculate_median (map (b_close \<circ> snd) venue_bars)"
  using assms
  by (simp add: build_composite_from_venue_bars_def Let_def backfill_median_sort
      del: sort_key_simps)

lemma stale_threshold_nonneg: "0 \<le> get_stale_threshold venue mt"
  by (cases venue; cases mt)
    (simp_all add: get_stale_threshold_def DEFAULT_STALE_THRESHOLD_MS_def)

lemma stale_threshold_not_neg: "\<not> get_stale_threshold venue mt < 0"
  using stale_threshold_nonneg [of venue mt] by simp

lemma backfill_inputs_survive:
  "survivors now mt (backfill_filter_inputs g venue_bars now)
     = backfill_filter_inputs g venue_bars now"
  unfolding survivors_def backfill_filter_inputs_def
  by (rule filter_True)
    (auto simp: early_exclusion_def stale_threshold_not_neg)

lemma backfill_inputs_prices:
  "map price_of (backfill_filter_inputs g venue_bars now) = map (g \<circ> snd) venue_bars"
  by (auto simp: backfill_filter_inputs_def price_of_def)

lemma backfill_inputs_final:
  assumes "no_outlier_in g venue_bars"
  shows "final_survivors now mt (backfill_filter_inputs g venue_bars now)
     = backfill_filter_inputs g venue_bars now"
proof -
  have med: "reference_median now mt (backfill_filter_inputs g venue_bars now)
      = calculate_median (map (g \<circ> snd) venue_bars)"
    by (simp only: reference_median_def backfill_inputs_survive backfill_inputs_prices)
  show ?thesis
    unfolding final_survivors_def backfill_inputs_survive med
    using assms
    by (intro filter_True)
      (auto simp: no_outlier_in_def list_all_iff backfill_filter_inputs_def price_of_def)
qed

lemma spec_backfill_component_agrees:
  assumes "2 \<le> length venue_bars" and "no_outlier_in g venue_bars"
  shows "spec_backfill_component g venue_bars now mt
     = Inr (calculate_median (map (g \<circ> snd) venue_bars))"
proof -
  from filter_outliers_char [of "backfill_filter_inputs g venue_bars now" now mt]
  obtain cs where
    "filter_outliers (backfill_filter_inputs g venue_bars now) now mt
       = Inr (result_of (backfill_filter_inputs g venue_bars now) now mt cs)"
    by blast
  moreover have "length (backfill_filter_inputs g venue_bars now) = length venue_bars"
    by (simp add: backfill_filter_inputs_def)
  ultimately show ?thesis
    using assms(1)
    by (simp add: spec_backfill_component_def result_of_def Let_def
        backfill_inputs_final [OF assms(2)] backfill_inputs_prices)
qed

text \<open>
  C6 (as amended). For every non-empty set of venue bars assembled for a gap minute, the
  backfill service's composite construction returns a composite bar whose open, high,
  low and close are the plain medians of the venue bars' components, with no outlier
  exclusion. A component equals what the outlier filter of that component yields (every
  venue with a bar connected and fresh, absent venues left out) whenever there are at
  least two venue bars and no venue bar deviates in that component by more than 100 bps
  from the component's median.
\<close>

theorem backfill_composite_plain_median:
  assumes "venue_bars \<noteq> []"
  shows "\<exists>cb. build_composite_from_venue_bars venue_bars bar_time asset market_type = Some cb
     \<and> cb_open cb = calculate_median (map (b_open \<circ> snd) venue_bars)
     \<and> cb_high cb = calculate_median (map (b_high \<circ> snd) venue_bars)
     \<and> cb_low cb = calculate_median (map (b_low \<circ> snd) venue_bars)
     \<and> cb_close cb = calculate_median (map (b_close \<circ> snd) venue_bars)
     \<and> (2 \<le> length venue_bars \<and> no_outlier_in b_open venue_bars \<longrightarrow>
          spec_backfill_component b_open venue_bars now market_type = Inr (cb_open cb))
     \<and> (2 \<le> length venue_bars \<and> no_outlier_in b_high venue_bars \<longrightarrow>
          spec_backfill_component b_high venue_bars now market_type = Inr (cb_high cb))
     \<and> (2 \<le> length venue_bars \<and> no_outlier_in b_low venue_bars \<longrightarrow>
          spec_backfill_component b_low venue_bars now market_type = Inr (cb_low cb))
     \<and> (2 \<le> length venue_bars \<and> no_outlier_in b_close venue_bars \<longrightarrow>
          spec_backfill_component b_close venue_bars now market_type = Inr (cb_close cb))"
proof -
  from build_composite_from_venue_bars_ohlc [OF assms, of bar_time asset market_type]
  obtain cb where cb:
    "build_composite_from_venue_bars venue_bars bar_time asset market_type = Some cb"
    "cb_open cb = calculate_median (map (b_open \<circ> snd) venue_bars)"
    "cb_high cb = calculate_median (map (b_high \<circ> snd) venue_bars)"
    "cb_low cb = calculate_median (map (b_low \<circ> snd) venue_bars)"
    "cb_close cb = calculate_median (map (b_close \<circ> snd) venue_bars)"
    by blast
  then show ?thesis
    using spec_backfill_component_agrees [of venue_bars _ now market_type] by auto
qed

lemmas backfill_eval =
  build_composite_from_venue_bars_def backfill_median_def get_enabled_venues_def
  ENABLED_SPOT_VENUES_def BACKFILL_EXCLUDED_VENUES_def REALTIME_VENUES_def
  BACKFILL_VENUES_def spec_backfill_component_def backfill_filter_inputs_def
  example_bar_def

theorem backfill_composite_plain_median_witness:
  "build_composite_from_venue_bars
     [(BINANCE, example_bar BINANCE 100 100 100 100 5),
      (KRAKEN, example_bar KRAKEN (201 / 2) (201 / 2) (201 / 2) (201 / 2) 7),
      (OKX, example_bar OKX 101 101 101 101 11)] 0 BTC SPOT =
   Some \<lparr>cb_time = 0, cb_open = Some (201 / 2), cb_high = Some (201 / 2),
         cb_low = Some (201 / 2), cb_close = Some (201 / 2), cb_volume = 23,
         cb_buy_volume = 23, cb_sell_volume = 0, cb_buy_count = 9, cb_sell_count = 0,
         cb_degraded = False, cb_is_gap = False, cb_is_backfilled = True,
         cb_included_venues = [BINANCE, KRAKEN, OKX],
         cb_excluded_venues = [\<lparr>ev_venue = COINBASE, ev_reason = BACKFILL_UNAVAILABLE\<rparr>],
         cb_asset = Some BTC, cb_market_type = Some SPOT\<rparr>
   \<and> no_outlier_in b_close
        [(BINANCE, example_bar BINANCE 100 100 100 100 5),
         (KRAKEN, example_bar KRAKEN (201 / 2) (201 / 2) (201 / 2) (201 / 2) 7),
         (OKX, example_bar OKX 101 101 101 101 11)]
   \<and> spec_backfill_component b_close
        [(BINANCE, example_bar BINANCE 100 100 100 100 5),
         (KRAKEN, example_bar KRAKEN (201 / 2) (201 / 2) (201 / 2) (201 / 2) 7),
         (OKX, example_bar OKX 101 101 101 101 11)] 60000 SPOT = Inr (Some (201 / 2))"
  using backfill_composite_plain_median
    [of "[(BINANCE, example_bar BINANCE 100 100 100 100 5),
          (KRAKEN, example_bar KRAKEN (201 / 2) (201 / 2) (201 / 2) (201 / 2) 7),
          (OKX, example_bar OKX 101 101 101 101 11)]" 0 BTC SPOT 60000]
  by (simp add: backfill_eval filter_eval no_outlier_in_def is_outlier_def deviation_bps_def)

text \<open>
  The claim as stated fails: the backfill composite applies no outlier rule. With closes
  100, 100.5 and 200 it yields the plain median 100.5, computed with the bar at 200
  (which is far more than 100 bps from the median); the outlier filter excludes that
  bar and yields the median 100.25 of the other two.
\<close>

theorem backfill_composite_plain_median_counterexample:
  "build_composite_from_venue_bars
     [(BINANCE, example_bar BINANCE 100 100 100 100 5),
      (KRAKEN, example_bar KRAKEN (201 / 2) (201 / 2) (201 / 2) (201 / 2) 7),
      (OKX, example_bar OKX 200 200 200 200 11)] 0 BTC SPOT =
   Some \<lparr>cb_time = 0, cb_open = Some (201 / 2), cb_high = Some (201 / 2),
         cb_low = Some (201 / 2), cb_close = Some (201 / 2), cb_volume = 23,
         cb_buy_volume = 23, cb_sell_volume = 0, cb_buy_count = 9, cb_sell_count = 0,
         cb_degraded = False, cb_is_gap = False, cb_is_backfilled = True,
         cb_included_venues = [BINANCE, KRAKEN, OKX],
         cb_excluded_venues = [\<lparr>ev_venue = COINBASE, ev_reason = BACKFILL_UNAVAILABLE\<rparr>],
         cb_asset = Some BTC, cb_market_type = Some SPOT\<rparr>
   \<and> spec_backfill_component b_close
        [(BINANCE, example_bar BINANCE 100 100 100 100 5),
         (KRAKEN, example_bar KRAKEN (201 / 2) (201 / 2) (201 / 2) (201 / 2) 7),
         (OKX, example_bar OKX 200 200 200 200 11)] 60000 SPOT = Inr (Some (401 / 4))
   \<and> calculate_deviation_bps 200 (201 / 2) = Inr (Finite (1990000 / 201))"
  by (simp add: backfill_eval filter_eval)

section \<open>Backfill service: the aggregated result\<close>













end
